theory Spec2Isabelle
  imports Main
begin

section \<open>Data model\<close>

text \<open>
  Instants are integers: milliseconds since the Unix epoch. \<^verbatim>\<open>pd.to_datetime(x, unit='ms')\<close>
  of an integer is exact, and a Timestamp is the instant it stands for. The way back,
  \<^verbatim>\<open>int(ts.timestamp() * 1000)\<close>, goes through a float and is not the identity: it is the
  function \<open>epoch_ms\<close> of the environment, below.
\<close>

type_synonym timestamp = int

definition hours :: "int \<Rightarrow> int" where
  "hours h = h * 3600000"

definition days :: "int \<Rightarrow> int" where
  "days d = d * 86400000"

text \<open>
  A cell of a DataFrame. \<open>Stamp t\<close> is a pandas Timestamp object; \<open>DateText t\<close> is any
  other value that \<^verbatim>\<open>pd.to_datetime\<close> converts to the instant \<open>t\<close> (what
  \<^verbatim>\<open>pd.read_csv\<close> gives for a datetime column: text); \<open>Val s\<close> is any other
  non-null value, kept as its text; \<open>NaN\<close> is the missing value.
\<close>

datatype cell = NaN | Stamp timestamp | DateText timestamp | Val string

record table =
  columns :: "string list"
  rows :: "cell list list"

text \<open>\<^verbatim>\<open>pd.DataFrame()\<close> and \<^verbatim>\<open>df.empty\<close> (true when either axis has length 0).\<close>

definition empty_df :: table where
  "empty_df = \<lparr>columns = [], rows = []\<rparr>"

definition df_empty :: "table \<Rightarrow> bool" where
  "df_empty df \<longleftrightarrow> columns df = [] \<or> rows df = []"

text \<open>
  Exceptions. The source tells \<^verbatim>\<open>requests.exceptions.RequestException\<close> from every other
  \<^verbatim>\<open>Exception\<close>; the other constructors are all caught by \<^verbatim>\<open>except Exception\<close>.
\<close>

datatype error = RequestException | KeyError | ValueError | TypeError | AttributeError
  | ParserError | OSError

text \<open>
  The log: the level of each logging call with the text of its message, placeholders of the
  f-string left as written. \<^verbatim>\<open>logger.exception\<close> is the level \<open>EXCEPTION\<close>.
\<close>

datatype level = INFO | WARNING | ERROR | EXCEPTION

text \<open>
  A file of the cache directory: \<open>Corrupt\<close> is content on which \<^verbatim>\<open>pd.read_csv\<close> raises
  (a zero-byte file, undecodable bytes, a quoted field that never closes, a row with more
  fields than the ones before it); \<open>Csv df\<close> is content that parses to \<open>df\<close>. A file cut
  short in the middle of a write is most often of the second kind: pandas reads the rows
  that are there and pads the last one, and \<open>df\<close> is then that partial table.
\<close>

datatype cache_file = Corrupt | Csv table

text \<open>
  An HTTP request as \<^verbatim>\<open>requests.get(endpoint, params=params)\<close> sends it; parameter values
  are integers or text.
\<close>

datatype param = PInt int | PStr string

record request =
  endpoint :: string
  params :: "(string \<times> param) list"

text \<open>
  The world the pipeline runs in: the files by path, the paths that cannot be written, the
  value of \<^verbatim>\<open>datetime.now()\<close>, the log, and the HTTP requests sent so far (oldest first).
\<close>

record world =
  files :: "string \<Rightarrow> cache_file option"
  readonly :: "string \<Rightarrow> bool"
  clock :: timestamp
  logged :: "(level \<times> string) list"
  sent :: "request list"

definition log :: "level \<Rightarrow> string \<Rightarrow> world \<Rightarrow> world" where
  "log lv msg w = w\<lparr>logged := logged w @ [(lv, msg)]\<rparr>"

text \<open>The last \<open>n\<close> entries of the log, oldest first.\<close>

definition last_logs :: "nat \<Rightarrow> world \<Rightarrow> (level \<times> string) list" where
  "last_logs n w = drop (length (logged w) - n) (logged w)"

subsection \<open>Columns\<close>

fun index_of :: "string list \<Rightarrow> string \<Rightarrow> nat option" where
  "index_of [] k = None"
| "index_of (c # cs) k = (if c = k then Some 0 else map_option Suc (index_of cs k))"

text \<open>A row shorter than the header reads as missing values, as \<^verbatim>\<open>read_csv\<close> pads it.\<close>

definition cell_at :: "cell list \<Rightarrow> nat \<Rightarrow> cell" where
  "cell_at r i = (if i < length r then r ! i else NaN)"

text \<open>\<^verbatim>\<open>df[key]\<close>: the column's cells, or KeyError.\<close>

definition column :: "table \<Rightarrow> string \<Rightarrow> error + cell list" where
  "column df key =
     (case index_of (columns df) key of
        None \<Rightarrow> Inl KeyError
      | Some i \<Rightarrow> Inr (map (\<lambda>r. cell_at r i) (rows df)))"

fun is_time :: "cell \<Rightarrow> bool" where
  "is_time (Stamp t) = True"
| "is_time (DateText t) = True"
| "is_time c = False"

fun time_of :: "cell \<Rightarrow> timestamp" where
  "time_of (Stamp t) = t"
| "time_of (DateText t) = t"
| "time_of c = 0"

text \<open>
  \<^verbatim>\<open>Series.max()\<close> and \<^verbatim>\<open>Series.min()\<close> skip missing values and give NaN when nothing is
  left. Among datetimes the greater (lesser) instant wins; a column that holds a value
  that is no datetime is taken to have such a value as its extremum.
\<close>

fun later :: "cell \<Rightarrow> cell \<Rightarrow> cell" where
  "later (Val s) c = Val s"
| "later c (Val s) = Val s"
| "later a b = (if time_of a \<le> time_of b then b else a)"

fun earlier :: "cell \<Rightarrow> cell \<Rightarrow> cell" where
  "earlier (Val s) c = Val s"
| "earlier c (Val s) = Val s"
| "earlier a b = (if time_of b \<le> time_of a then b else a)"

definition series_max :: "cell list \<Rightarrow> cell" where
  "series_max cs =
     (case filter (\<lambda>c. c \<noteq> NaN) cs of [] \<Rightarrow> NaN | x # xs \<Rightarrow> fold later xs x)"

definition series_min :: "cell list \<Rightarrow> cell" where
  "series_min cs =
     (case filter (\<lambda>c. c \<noteq> NaN) cs of [] \<Rightarrow> NaN | x # xs \<Rightarrow> fold earlier xs x)"

text \<open>\<^verbatim>\<open>pd.to_datetime\<close> of one value: \<open>None\<close> is NaT.\<close>

fun to_datetime :: "cell \<Rightarrow> error + timestamp option" where
  "to_datetime NaN = Inr None"
| "to_datetime (Stamp t) = Inr (Some t)"
| "to_datetime (DateText t) = Inr (Some t)"
| "to_datetime (Val s) = Inl ValueError"

section \<open>The local cache store (\<^verbatim>\<open>BaseData\<close>)\<close>

definition upper_char :: "char \<Rightarrow> char" where
  "upper_char c =
     (let n = (of_char c :: nat) in if 97 \<le> n \<and> n \<le> 122 then char_of (n - 32) else c)"

definition upper :: "string \<Rightarrow> string" where
  "upper s = map upper_char s"

text \<open>\<^verbatim>\<open>os.path.join\<close> of two components.\<close>

definition path_join :: "string \<Rightarrow> string \<Rightarrow> string" where
  "path_join a b =
     (if b \<noteq> [] \<and> hd b = CHR ''/'' then b
      else if a = [] \<or> last a = CHR ''/'' then a @ b
      else a @ ''/'' @ b)"

record base_data =
  symbol :: string
  interval :: string
  data_dir :: string

text \<open>
  \<^verbatim>\<open>BaseData.__init__\<close>; the argument \<open>raw\<close> is \<^verbatim>\<open>load_config()['data_paths']['raw']\<close>.
\<close>

definition BaseData :: "string \<Rightarrow> string \<Rightarrow> string \<Rightarrow> base_data" where
  "BaseData raw ticker iv = \<lparr>symbol = upper ticker, interval = iv, data_dir = raw\<rparr>"

definition cache_path :: "'a base_data_scheme \<Rightarrow> string \<Rightarrow> string" where
  "cache_path self data_type =
     path_join (data_dir self)
       (symbol self @ ''_'' @ interval self @ ''_'' @ data_type @ ''.csv'')"

fun read_csv :: "cache_file \<Rightarrow> error + table" where
  "read_csv Corrupt = Inl ParserError"
| "read_csv (Csv df) = Inr df"

definition key_of :: "string \<Rightarrow> string" where
  "key_of data_type = (if data_type = ''ohlcv'' then ''open_time'' else ''timestamp'')"

text \<open>\<^verbatim>\<open>datetime.now() - latest_timestamp < timedelta(hours=4)\<close>; a comparison with NaT is false.\<close>

fun fresh :: "timestamp \<Rightarrow> timestamp option \<Rightarrow> bool" where
  "fresh now None = False"
| "fresh now (Some latest) = (now - latest < hours 4)"

definition check_local_data ::
  "'a base_data_scheme \<Rightarrow> string \<Rightarrow> world \<Rightarrow> (error + bool \<times> table) \<times> world" where
  "check_local_data self data_type w =
     (let file_path = cache_path self data_type in
      case files w file_path of
        None \<Rightarrow>
          (Inr (False, empty_df), log INFO ''No local data found for {data_type} at {file_path}'' w)
      | Some f \<Rightarrow>
          (case read_csv f of
             Inl e \<Rightarrow> (Inl e, w)
           | Inr df \<Rightarrow>
               if df_empty df then
                 (Inr (False, empty_df),
                  log INFO ''Empty local data for {data_type} at {file_path}'' w)
               else
                 (case column df (key_of data_type) of
                    Inl e \<Rightarrow> (Inl e, w)
                  | Inr cs \<Rightarrow>
                      (case to_datetime (series_max cs) of
                         Inl e \<Rightarrow> (Inl e, w)
                       | Inr latest_timestamp \<Rightarrow>
                           if fresh (clock w) latest_timestamp then
                             (Inr (True, df),
                              log INFO ''Local {data_type} data is up-to-date at {file_path}'' w)
                           else
                             (Inr (False, df),
                              log INFO ''Local {data_type} data is outdated at {file_path}'' w)))))"

text \<open>
  \<^verbatim>\<open>df.to_csv(path, index=False)\<close>: fails on a path that cannot be written; Timestamps are
  written as text.
\<close>

fun csv_cell :: "cell \<Rightarrow> cell" where
  "csv_cell (Stamp t) = DateText t"
| "csv_cell c = c"

definition to_csv :: "table \<Rightarrow> string \<Rightarrow> world \<Rightarrow> (error + unit) \<times> world" where
  "to_csv df path w =
     (if readonly w path then (Inl OSError, w)
      else (Inr (),
            w\<lparr>files := (files w)(path \<mapsto> Csv (df\<lparr>rows := map (map csv_cell) (rows df)\<rparr>))\<rparr>))"

definition save_data ::
  "'a base_data_scheme \<Rightarrow> table \<Rightarrow> string \<Rightarrow> world \<Rightarrow> (error + unit) \<times> world" where
  "save_data self df data_type w =
     (if \<not> df_empty df then
        (case to_csv df (cache_path self data_type) w of
           (Inl e, w') \<Rightarrow> (Inl e, w')
         | (Inr u, w') \<Rightarrow>
             (Inr (), log INFO ''Saved {data_type} data to {file_path} | Records: {len(df)}'' w'))
      else (Inr (), log WARNING ''No {data_type} data to save for {self.symbol}'' w))"

section \<open>External collaborators\<close>

text \<open>
  What an HTTP call gives the code. \<open>RequestFailed\<close>: \<^verbatim>\<open>requests.get\<close>,
  \<^verbatim>\<open>raise_for_status\<close> or \<^verbatim>\<open>response.json()\<close> raises a RequestException. \<open>Malformed\<close>:
  the body is JSON of another shape than the code indexes into, so that the code raises
  some other exception while it builds its DataFrame. \<open>Body x\<close>: the body, in the shape the
  code reads.
\<close>

datatype 'a response = RequestFailed | Malformed | Body 'a

text \<open>One candle, the seven fields \<^verbatim>\<open>fetch_historical_ohlcv\<close> keeps; prices are kept as text.\<close>

record kline =
  open_time :: timestamp
  open_price :: string
  high_price :: string
  low_price :: string
  close_price :: string
  volume :: string
  close_time :: timestamp

record depth_body =
  bids :: "(string \<times> string) list"
  asks :: "(string \<times> string) list"
  lastUpdateId :: int

record market_chart =
  prices :: "(timestamp \<times> string) list"
  market_caps :: "(timestamp \<times> string) list"
  total_volumes :: "(timestamp \<times> string) list"

text \<open>
  The services and libraries the fetchers call. A service answers a request, given the
  requests sent before it (so that a service may answer the same request differently the
  second time). Floating-point arithmetic, the indicator library, the sentiment analyser
  and pandas' resampling are parameters: their values are not modelled.

  \<open>epoch_ms t\<close> is \<^verbatim>\<open>int(ts.timestamp() * 1000)\<close> for the Timestamp \<open>ts\<close> of the instant \<open>t\<close>:
  the seconds as a float, times 1000, truncated. The float product can fall just below
  the whole number of milliseconds, and the result is then one millisecond short: the
  instant 1001 gives 1000.
\<close>

record env =
  binance_exchange_info :: "request list \<Rightarrow> request \<Rightarrow> string list response"
  binance_klines :: "request list \<Rightarrow> request \<Rightarrow> kline list response"
  binance_depth :: "request list \<Rightarrow> request \<Rightarrow> depth_body response"
  alternative_me :: "request list \<Rightarrow> request \<Rightarrow> string response"
  coingecko :: "request list \<Rightarrow> request \<Rightarrow> market_chart response"
  coinmetrics :: "request list \<Rightarrow> request \<Rightarrow> (timestamp \<times> cell \<times> cell) list response"
  yfinance :: "request list \<Rightarrow> request \<Rightarrow> (timestamp \<times> string) list response"
  float_sub :: "string \<Rightarrow> string \<Rightarrow> string"
  float_sum :: "string list \<Rightarrow> string"
  pct_change :: "string list \<Rightarrow> string list"
  talib :: "cell list \<Rightarrow> error + cell list list"
  vader_compound :: "string \<Rightarrow> string"
  resample_4h_ffill :: "cell list list \<Rightarrow> error + cell list list"
  epoch_ms :: "timestamp \<Rightarrow> int"

text \<open>\<^verbatim>\<open>requests.get\<close>: the request joins the record of requests sent.\<close>

definition http_get ::
  "(request list \<Rightarrow> request \<Rightarrow> 'a response) \<Rightarrow> request \<Rightarrow> world \<Rightarrow> 'a response \<times> world" where
  "http_get service r w = (service (sent w) r, w\<lparr>sent := sent w @ [r]\<rparr>)"

section \<open>OHLCV (\<^verbatim>\<open>OHLCVData\<close>)\<close>

record ohlcv_data = base_data +
  base_url :: string

definition OHLCVData :: "string \<Rightarrow> string \<Rightarrow> string \<Rightarrow> string \<Rightarrow> ohlcv_data" where
  "OHLCVData raw ticker iv url =
     \<lparr>symbol = upper ticker, interval = iv, data_dir = raw, base_url = url\<rparr>"

text \<open>Python's truth value of an \<^verbatim>\<open>Optional[int]\<close>: \<^verbatim>\<open>None\<close> and \<^verbatim>\<open>0\<close> are false.\<close>

fun truthy :: "int option \<Rightarrow> bool" where
  "truthy None = False"
| "truthy (Some n) = (n \<noteq> 0)"

definition kline_request :: "ohlcv_data \<Rightarrow> int \<Rightarrow> int option \<Rightarrow> request" where
  "kline_request self limit start_time =
     (let params0 = [(''symbol'', PStr (symbol self)), (''interval'', PStr (interval self)),
                     (''limit'', PInt limit)]
      in \<lparr>endpoint = base_url self @ ''/api/v3/klines'',
          params = (if truthy start_time then params0 @ [(''startTime'', PInt (the start_time))]
                    else params0)\<rparr>)"

definition fetch_historical_ohlcv ::
  "env \<Rightarrow> ohlcv_data \<Rightarrow> int \<Rightarrow> int option \<Rightarrow> world \<Rightarrow> (error + kline list) \<times> world" where
  "fetch_historical_ohlcv E self limit start_time w =
     (let w1 = log INFO
            ''Requesting OHLCV data | Symbol: {self.symbol}, Interval: {self.interval}, Limit: {limit}'' w
      in case http_get (binance_klines E) (kline_request self limit start_time) w1 of
           (RequestFailed, w2) \<Rightarrow>
             (Inl RequestException, log ERROR ''HTTP error during OHLCV fetch: {req_err}'' w2)
         | (Malformed, w2) \<Rightarrow>
             (Inl ValueError,
              log EXCEPTION ''Unexpected error while fetching OHLCV data: {e}'' w2)
         | (Body data, w2) \<Rightarrow>
             if data = [] then
               (Inr [], log WARNING ''No OHLCV data returned for {self.symbol}'' w2)
             else
               (Inr data, log INFO ''Fetched {len(df)} OHLCV records for {self.symbol}'' w2))"

definition get_symbol_listing_date ::
  "env \<Rightarrow> ohlcv_data \<Rightarrow> world \<Rightarrow> (error + int) \<times> world" where
  "get_symbol_listing_date E self w =
     (let failed = log EXCEPTION ''Error fetching listing date for {self.symbol}: {e}'' in
      case http_get (binance_exchange_info E)
             \<lparr>endpoint = base_url self @ ''/api/v3/exchangeInfo'', params = []\<rparr> w of
        (RequestFailed, w1) \<Rightarrow> (Inl RequestException, failed w1)
      | (Malformed, w1) \<Rightarrow> (Inl KeyError, failed w1)
      | (Body symbols, w1) \<Rightarrow>
          if symbol self \<in> set symbols then
            (case fetch_historical_ohlcv E self 1 (Some 0) w1 of
               (Inl e, w2) \<Rightarrow> (Inl e, failed w2)
             | (Inr klines, w2) \<Rightarrow>
                 if klines = [] then
                   (Inl ValueError,
                    failed (log ERROR ''No historical data available for {self.symbol}'' w2))
                 else (Inr (epoch_ms E (open_time (hd klines))), w2))
          else
            (Inl ValueError,
             failed (log ERROR ''Symbol {self.symbol} not found in exchange info'' w1)))"

text \<open>
  The \<^verbatim>\<open>while True\<close> loop of \<^verbatim>\<open>fetch_and_store\<close>, with fuel: \<open>None\<close> is a loop that has not
  ended within \<open>fuel\<close> page requests. The result is \<^verbatim>\<open>all_ohlcv\<close>, the list of pages.
\<close>

fun fetch_loop ::
  "nat \<Rightarrow> env \<Rightarrow> ohlcv_data \<Rightarrow> int \<Rightarrow> kline list list \<Rightarrow> world
     \<Rightarrow> ((error + kline list list) \<times> world) option" where
  "fetch_loop 0 E self current_time all_ohlcv w = None"
| "fetch_loop (Suc fuel) E self current_time all_ohlcv w =
     (case fetch_historical_ohlcv E self 1000 (Some current_time) w of
        (Inl e, w1) \<Rightarrow> Some (Inl e, w1)
      | (Inr df_ohlcv, w1) \<Rightarrow>
          if df_ohlcv = [] then Some (Inr all_ohlcv, w1)
          else if length df_ohlcv < 1000 then Some (Inr (all_ohlcv @ [df_ohlcv]), w1)
          else fetch_loop fuel E self (epoch_ms E (close_time (last df_ohlcv)) + 1)
                 (all_ohlcv @ [df_ohlcv]) w1)"

text \<open>The DataFrame of a list of candles, and \<^verbatim>\<open>pd.concat\<close> of the pages.\<close>

definition kline_row :: "kline \<Rightarrow> cell list" where
  "kline_row k =
     [Stamp (open_time k), Val (open_price k), Val (high_price k), Val (low_price k),
      Val (close_price k), Val (volume k), Stamp (close_time k)]"

definition ohlcv_frame :: "kline list \<Rightarrow> table" where
  "ohlcv_frame ks =
     \<lparr>columns = [''open_time'', ''open'', ''high'', ''low'', ''close'', ''volume'', ''close_time''],
      rows = map kline_row ks\<rparr>"

definition OHLCV_fetch_and_store ::
  "nat \<Rightarrow> env \<Rightarrow> ohlcv_data \<Rightarrow> world \<Rightarrow> ((error + table) \<times> world) option" where
  "OHLCV_fetch_and_store fuel E self w =
     (let failed = log EXCEPTION ''Error fetching and storing OHLCV data: {e}'' in
      case check_local_data self ''ohlcv'' w of
        (Inl e, w1) \<Rightarrow> Some (Inl e, w1)
      | (Inr (is_up_to_date, df), w1) \<Rightarrow>
          if is_up_to_date then
            Some (Inr df, log INFO ''Using local OHLCV data with {len(df)} records'' w1)
          else
            (case get_symbol_listing_date E self w1 of
               (Inl e, w2) \<Rightarrow> Some (Inl e, failed w2)
             | (Inr start_time, w2) \<Rightarrow>
                 (case fetch_loop fuel E self start_time [] w2 of
                    None \<Rightarrow> None
                  | Some (Inl e, w3) \<Rightarrow> Some (Inl e, failed w3)
                  | Some (Inr all_ohlcv, w3) \<Rightarrow>
                      if all_ohlcv \<noteq> [] then
                        (let full_ohlcv = ohlcv_frame (concat all_ohlcv) in
                         case save_data self full_ohlcv ''ohlcv'' w3 of
                           (Inl e, w4) \<Rightarrow> Some (Inl e, failed w4)
                         | (Inr u, w4) \<Rightarrow> Some (Inr full_ohlcv, w4))
                      else Some (Inr empty_df, w3))))"

section \<open>Helpers shared by the auxiliary fetchers\<close>

text \<open>
  \<^verbatim>\<open>pd.date_range(start=start, end=end, freq='4H')\<close>: the instants \<open>start + k * 4h\<close> up to
  \<open>end\<close>, both ends included; none when \<open>end\<close> is before \<open>start\<close>. The alias \<^verbatim>\<open>'4H'\<close> is
  read as pandas 1 and 2 read it, four hours.
\<close>

definition date_range :: "timestamp \<Rightarrow> timestamp \<Rightarrow> timestamp list" where
  "date_range start end =
     (if end < start then []
      else map (\<lambda>k. start + hours 4 * int k) [0..<Suc (nat ((end - start) div hours 4))])"

text \<open>
  The start of a range reaches the fetchers as a cell (the minimum of a column): pandas
  accepts a Timestamp or datetime text there and raises on a missing or other value.
\<close>

fun date_range_from :: "cell \<Rightarrow> timestamp \<Rightarrow> error + timestamp list" where
  "date_range_from (Stamp t) end = Inr (date_range t end)"
| "date_range_from (DateText t) end = Inr (date_range t end)"
| "date_range_from c end = Inl ValueError"

text \<open>
  \<^verbatim>\<open>int(ts.timestamp() * 1000)\<close> and \<^verbatim>\<open>ts.strftime('%Y-%m-%dT%H:%M:%S')\<close>: methods of a
  Timestamp, absent on text and floats. The text that \<^verbatim>\<open>strftime\<close> writes stands for the
  whole second the instant falls in; it is kept as that second, in milliseconds.
\<close>

fun timestamp_ms :: "env \<Rightarrow> cell \<Rightarrow> error + int" where
  "timestamp_ms E (Stamp t) = Inr (epoch_ms E t)"
| "timestamp_ms E c = Inl AttributeError"



text \<open>\<^verbatim>\<open>(end_date - start_date).days\<close>, with \<^verbatim>\<open>end_date\<close> a datetime: text cannot be subtracted.\<close>

fun timedelta_days :: "timestamp \<Rightarrow> cell \<Rightarrow> error + int" where
  "timedelta_days end (Stamp t) = Inr ((end - t) div days 1)"
| "timedelta_days end c = Inl TypeError"

definition lower_char :: "char \<Rightarrow> char" where
  "lower_char c =
     (let n = (of_char c :: nat) in if 65 \<le> n \<and> n \<le> 90 then char_of (n + 32) else c)"

definition lower :: "string \<Rightarrow> string" where
  "lower s = map lower_char s"

text \<open>\<^verbatim>\<open>s.replace(old, '')\<close> and \<^verbatim>\<open>old in s\<close>, for a non-empty \<open>old\<close>.\<close>

function remove_all :: "string \<Rightarrow> string \<Rightarrow> string" where
  "remove_all old [] = []"
| "remove_all old (c # cs) =
     (if old \<noteq> [] \<and> take (length old) (c # cs) = old
      then remove_all old (drop (length old) (c # cs))
      else c # remove_all old cs)"
  by pat_completeness auto
termination
  by (relation "measure (\<lambda>(old, s). length s)") (auto simp: Suc_le_eq)

fun contains :: "string \<Rightarrow> string \<Rightarrow> bool" where
  "contains old [] = (old = [])"
| "contains old (c # cs) = (take (length old) (c # cs) = old \<or> contains old cs)"

text \<open>
  \<^verbatim>\<open>df[(df['timestamp'] >= start_date) & (df['timestamp'] <= end_date)]\<close> on rows whose first
  cell is the timestamp.
\<close>

definition clip :: "timestamp \<Rightarrow> timestamp \<Rightarrow> cell list list \<Rightarrow> cell list list" where
  "clip start end rs =
     filter (\<lambda>r. is_time (cell_at r 0) \<and> start \<le> time_of (cell_at r 0)
                 \<and> time_of (cell_at r 0) \<le> end) rs"

text \<open>
  The tail the \<^verbatim>\<open>fetch_and_store\<close> methods of the auxiliary fetchers share, inside their
  \<^verbatim>\<open>try\<close>: save the table when it is not empty and return it; an exception of the save is
  logged with the method's own message and raised again.
\<close>

definition store_fetched ::
  "'a base_data_scheme \<Rightarrow> string \<Rightarrow> string \<Rightarrow> table \<Rightarrow> world \<Rightarrow> (error + table) \<times> world" where
  "store_fetched self data_type failed df w =
     (if \<not> df_empty df then
        (case save_data self df data_type w of
           (Inl e, w1) \<Rightarrow> (Inl e, log EXCEPTION failed w1)
         | (Inr u, w1) \<Rightarrow> (Inr df, w1))
      else (Inr df, w))"

section \<open>Sentiment (\<^verbatim>\<open>SentimentData\<close>)\<close>

definition fetch_social_sentiment ::
  "env \<Rightarrow> base_data \<Rightarrow> string \<Rightarrow> cell \<Rightarrow> timestamp \<Rightarrow> world \<Rightarrow> table \<times> world" where
  "fetch_social_sentiment E self coin start_date end_date w =
     (let w1 = log INFO
            ''Simulating sentiment analysis for {coin} from {start_date} to {end_date}'' w
      in case date_range_from start_date end_date of
           Inl e \<Rightarrow> (empty_df, log EXCEPTION ''Error fetching social sentiment: {e}'' w1)
         | Inr dates \<Rightarrow>
             (\<lparr>columns = [''timestamp'', ''social_sentiment''],
               rows = map (\<lambda>d. [Stamp d, Val (vader_compound E (coin @ '' price is stable''))])
                        dates\<rparr>,
              log INFO ''Simulated {len(df)} sentiment scores for {coin}'' w1))"

definition Sentiment_fetch_and_store ::
  "env \<Rightarrow> base_data \<Rightarrow> cell \<Rightarrow> timestamp \<Rightarrow> world \<Rightarrow> (error + table) \<times> world" where
  "Sentiment_fetch_and_store E self start_date end_date w =
     (case check_local_data self ''sentiment'' w of
        (Inl e, w1) \<Rightarrow> (Inl e, w1)
      | (Inr (is_up_to_date, df), w1) \<Rightarrow>
          if is_up_to_date then
            (Inr df, log INFO ''Using local sentiment data with {len(df)} records'' w1)
          else
            (let coin_name = lower (remove_all ''USDT'' (symbol self)) in
             case fetch_social_sentiment E self coin_name start_date end_date w1 of
               (sentiment_data, w2) \<Rightarrow>
                 store_fetched self ''sentiment''
                   ''Error fetching and storing sentiment data: {e}'' sentiment_data w2))"

section \<open>Technical indicators (\<^verbatim>\<open>TechnicalData\<close>)\<close>

definition compute_technical_indicators ::
  "env \<Rightarrow> base_data \<Rightarrow> table \<Rightarrow> world \<Rightarrow> table \<times> world" where
  "compute_technical_indicators E self ohlcv_data w =
     (let failed = log EXCEPTION ''Error computing technical indicators: {e}'' in
      if df_empty ohlcv_data then
        (empty_df, log WARNING ''No OHLCV data provided for technical indicators'' w)
      else
        (case column ohlcv_data ''open_time'' of
           Inl e \<Rightarrow> (empty_df, failed w)
         | Inr timestamps \<Rightarrow>
             (case column ohlcv_data ''close'' of
                Inl e \<Rightarrow> (empty_df, failed w)
              | Inr closes \<Rightarrow>
                  (case talib E closes of
                     Inl e \<Rightarrow> (empty_df, failed w)
                   | Inr indicators \<Rightarrow>
                       (\<lparr>columns = [''timestamp'', ''sma50'', ''sma200'', ''rsi'', ''macd'',
                                    ''macd_signal'', ''upper_band'', ''middle_band'',
                                    ''lower_band''],
                         rows = map (\<lambda>(t, i). t # i) (zip timestamps indicators)\<rparr>,
                        log INFO ''Computed technical indicators for {len(df)} records'' w)))))"

definition Technical_fetch_and_store ::
  "env \<Rightarrow> base_data \<Rightarrow> table \<Rightarrow> world \<Rightarrow> (error + table) \<times> world" where
  "Technical_fetch_and_store E self ohlcv_data w =
     (case check_local_data self ''technical'' w of
        (Inl e, w1) \<Rightarrow> (Inl e, w1)
      | (Inr (is_up_to_date, df), w1) \<Rightarrow>
          if is_up_to_date then
            (Inr df, log INFO ''Using local technical data with {len(df)} records'' w1)
          else
            (case compute_technical_indicators E self ohlcv_data w1 of
               (technical_data, w2) \<Rightarrow>
                 store_fetched self ''technical''
                   ''Error computing and storing technical data: {e}'' technical_data w2))"

section \<open>Fear and greed (\<^verbatim>\<open>FearGreedData\<close>)\<close>

text \<open>
  The body of the ticker is the value of \<^verbatim>\<open>data['data']['1']['fear_greed']\<close>; a body
  without it is \<open>Malformed\<close>.
\<close>

definition fetch_fear_and_greed_index ::
  "env \<Rightarrow> base_data \<Rightarrow> cell \<Rightarrow> timestamp \<Rightarrow> world \<Rightarrow> table \<times> world" where
  "fetch_fear_and_greed_index E self start_date end_date w =
     (let failed = log EXCEPTION ''Unexpected error while fetching Fear and Greed Index: {e}'';
          w1 = log INFO ''Requesting Fear and Greed Index for {start_date} to {end_date}'' w
      in case http_get (alternative_me E)
                \<lparr>endpoint = ''https://api.alternative.me/v2/ticker/Bitcoin/'', params = []\<rparr> w1 of
           (RequestFailed, w2) \<Rightarrow>
             (empty_df, log ERROR ''HTTP error during Fear and Greed fetch: {req_err}'' w2)
         | (Malformed, w2) \<Rightarrow> (empty_df, failed w2)
         | (Body fear_greed, w2) \<Rightarrow>
             (case date_range_from start_date end_date of
                Inl e \<Rightarrow> (empty_df, failed w2)
              | Inr dates \<Rightarrow>
                  (\<lparr>columns = [''timestamp'', ''fear_greed_index''],
                    rows = map (\<lambda>d. [Stamp d, Val fear_greed]) dates\<rparr>,
                   log INFO
                     ''Fetched Fear and Greed Index (simulated) for {len(df)} periods'' w2)))"

definition FearGreed_fetch_and_store ::
  "env \<Rightarrow> base_data \<Rightarrow> cell \<Rightarrow> timestamp \<Rightarrow> world \<Rightarrow> (error + table) \<times> world" where
  "FearGreed_fetch_and_store E self start_date end_date w =
     (case check_local_data self ''fear_greed'' w of
        (Inl e, w1) \<Rightarrow> (Inl e, w1)
      | (Inr (is_up_to_date, df), w1) \<Rightarrow>
          if is_up_to_date then
            (Inr df, log INFO ''Using local Fear and Greed data with {len(df)} records'' w1)
          else
            (case fetch_fear_and_greed_index E self start_date end_date w1 of
               (fear_greed, w2) \<Rightarrow>
                 store_fetched self ''fear_greed''
                   ''Error fetching and storing Fear and Greed data: {e}'' fear_greed w2))"

section \<open>Fundamentals (\<^verbatim>\<open>FundamentalData\<close>)\<close>

text \<open>
  The DataFrame of the three series of the market chart: the dict constructor raises when
  they differ in length.
\<close>

definition chart_rows :: "market_chart \<Rightarrow> error + cell list list" where
  "chart_rows data =
     (if length (market_caps data) = length (prices data)
         \<and> length (total_volumes data) = length (prices data)
      then Inr (map (\<lambda>(p, m, v). [Stamp (fst p), Val (snd m), Val (snd v)])
                  (zip (prices data) (zip (market_caps data) (total_volumes data))))
      else Inl ValueError)"

definition fetch_fundamental_data ::
  "env \<Rightarrow> base_data \<Rightarrow> string \<Rightarrow> cell \<Rightarrow> timestamp \<Rightarrow> world \<Rightarrow> table \<times> world" where
  "fetch_fundamental_data E self coin start_date end_date w =
     (let failed = log EXCEPTION ''Unexpected error while fetching fundamental data: {e}'';
          endpoint = ''https://api.coingecko.com/api/v3/coins/'' @ coin @ ''/market_chart''
      in case timedelta_days end_date start_date of
           Inl e \<Rightarrow> (empty_df, failed w)
         | Inr d \<Rightarrow>
             (let params = [(''vs_currency'', PStr ''usd''), (''days'', PInt (d + 1)),
                            (''interval'', PStr ''daily'')];
                  w1 = log INFO
                    ''Requesting fundamental data for {coin} from {start_date} to {end_date}'' w
              in case http_get (coingecko E) \<lparr>endpoint = endpoint, params = params\<rparr> w1 of
                   (RequestFailed, w2) \<Rightarrow>
                     (empty_df,
                      log ERROR ''HTTP error during fundamental data fetch: {req_err}'' w2)
                 | (Malformed, w2) \<Rightarrow> (empty_df, failed w2)
                 | (Body data, w2) \<Rightarrow>
                     (case chart_rows data of
                        Inl e \<Rightarrow> (empty_df, failed w2)
                      | Inr rs \<Rightarrow>
                          (case resample_4h_ffill E rs of
                             Inl e \<Rightarrow> (empty_df, failed w2)
                           | Inr resampled \<Rightarrow>
                               (\<lparr>columns = [''timestamp'', ''market_cap'', ''total_volume''],
                                 rows = clip (time_of start_date) end_date resampled\<rparr>,
                                log INFO ''Fetched {len(df)} fundamental records for {coin}''
                                  w2)))))"

definition Fundamental_fetch_and_store ::
  "env \<Rightarrow> base_data \<Rightarrow> cell \<Rightarrow> timestamp \<Rightarrow> world \<Rightarrow> (error + table) \<times> world" where
  "Fundamental_fetch_and_store E self start_date end_date w =
     (case check_local_data self ''fundamentals'' w of
        (Inl e, w1) \<Rightarrow> (Inl e, w1)
      | (Inr (is_up_to_date, df), w1) \<Rightarrow>
          if is_up_to_date then
            (Inr df, log INFO ''Using local fundamental data with {len(df)} records'' w1)
          else
            (let coin_name = lower (remove_all ''USDT'' (symbol self)) in
             case fetch_fundamental_data E self coin_name start_date end_date w1 of
               (fundamental_data, w2) \<Rightarrow>
                 store_fetched self ''fundamentals''
                   ''Error fetching and storing fundamental data: {e}'' fundamental_data w2))"

section \<open>Macro (\<^verbatim>\<open>MacroData\<close>)\<close>



section \<open>On-chain (\<^verbatim>\<open>OnChainData\<close>)\<close>

record onchain_data = base_data +
  onchain_url :: string
  coin :: string

definition OnChainData :: "string \<Rightarrow> string \<Rightarrow> string \<Rightarrow> string \<Rightarrow> onchain_data" where
  "OnChainData raw ticker iv url =
     \<lparr>symbol = upper ticker, interval = iv, data_dir = raw, onchain_url = url,
      coin = (if contains ''BTC'' (upper ticker) then ''btc''
              else lower (remove_all ''USDT'' ticker))\<rparr>"



section \<open>Order book (\<^verbatim>\<open>OrderBookData\<close>)\<close>

text \<open>An \<^verbatim>\<open>OrderBookData\<close> object has the fields of an \<^verbatim>\<open>OHLCVData\<close> object.\<close>

type_synonym orderbook_data = ohlcv_data

definition order_book_row :: "env \<Rightarrow> string \<Rightarrow> int option \<Rightarrow> depth_body \<Rightarrow> cell list" where
  "order_book_row E ticker timestamp data =
     [Stamp (if truthy timestamp then the timestamp else lastUpdateId data),
      (if bids data \<noteq> [] then Val (fst (hd (bids data))) else NaN),
      (if bids data \<noteq> [] then Val (snd (hd (bids data))) else NaN),
      (if asks data \<noteq> [] then Val (fst (hd (asks data))) else NaN),
      (if asks data \<noteq> [] then Val (snd (hd (asks data))) else NaN),
      (if bids data \<noteq> [] \<and> asks data \<noteq> []
       then Val (float_sub E (fst (hd (asks data))) (fst (hd (bids data)))) else NaN),
      (if bids data \<noteq> [] then Val (float_sum E (map snd (bids data))) else Val ''0''),
      (if asks data \<noteq> [] then Val (float_sum E (map snd (asks data))) else Val ''0''),
      Val ticker]"

definition order_book_columns :: "string list" where
  "order_book_columns =
     [''timestamp'', ''bid_price_top'', ''bid_quantity_top'', ''ask_price_top'',
      ''ask_quantity_top'', ''bid_ask_spread'', ''total_bid_volume'', ''total_ask_volume'',
      ''symbol'']"

definition fetch_order_book_snapshot ::
  "env \<Rightarrow> orderbook_data \<Rightarrow> int \<Rightarrow> int option \<Rightarrow> world \<Rightarrow> (error + table) \<times> world" where
  "fetch_order_book_snapshot E self limit timestamp w =
     (let params = [(''symbol'', PStr (symbol self)), (''limit'', PInt limit)];
          w1 = log INFO
            ''Requesting order book snapshot | Symbol: {self.symbol}, Limit: {limit}'' w
      in case http_get (binance_depth E)
                \<lparr>endpoint = base_url self @ ''/api/v3/depth'', params = params\<rparr> w1 of
           (RequestFailed, w2) \<Rightarrow>
             (Inl RequestException,
              log ERROR ''HTTP error during order book fetch: {req_err}'' w2)
         | (Malformed, w2) \<Rightarrow>
             (Inl KeyError,
              log EXCEPTION ''Unexpected error while fetching order book data: {e}'' w2)
         | (Body data, w2) \<Rightarrow>
             (Inr \<lparr>columns = order_book_columns,
                   rows = [order_book_row E (symbol self) timestamp data]\<rparr>,
              log INFO ''Fetched order book snapshot for {self.symbol}'' w2))"

text \<open>The \<^verbatim>\<open>for\<close> loop over the OHLCV timestamps; the first exception ends it.\<close>

fun fetch_snapshots ::
  "env \<Rightarrow> orderbook_data \<Rightarrow> cell list \<Rightarrow> table list \<Rightarrow> world \<Rightarrow> (error + table list) \<times> world" where
  "fetch_snapshots E self [] all_order_books w = (Inr all_order_books, w)"
| "fetch_snapshots E self (timestamp # rest) all_order_books w =
     (case timestamp_ms E timestamp of
        Inl e \<Rightarrow> (Inl e, w)
      | Inr t \<Rightarrow>
          (case fetch_order_book_snapshot E self 100 (Some t) w of
             (Inl e, w1) \<Rightarrow> (Inl e, w1)
           | (Inr order_book, w1) \<Rightarrow>
               fetch_snapshots E self rest (all_order_books @ [order_book]) w1))"

text \<open>
  \<^verbatim>\<open>pd.concat(frames, ignore_index=True)\<close> of a non-empty list of frames that have the same
  columns (the source calls it under \<^verbatim>\<open>if all_order_books:\<close>).
\<close>

definition concat_frames :: "table list \<Rightarrow> table" where
  "concat_frames dfs = \<lparr>columns = columns (hd dfs), rows = concat (map rows dfs)\<rparr>"

definition OrderBook_fetch_and_store ::
  "env \<Rightarrow> orderbook_data \<Rightarrow> table \<Rightarrow> world \<Rightarrow> (error + table) \<times> world" where
  "OrderBook_fetch_and_store E self ohlcv_data w =
     (let failed = log EXCEPTION ''Error fetching and storing order book data: {e}'' in
      case check_local_data self ''orderbook'' w of
        (Inl e, w1) \<Rightarrow> (Inl e, w1)
      | (Inr (is_up_to_date, df), w1) \<Rightarrow>
          if is_up_to_date then
            (Inr df, log INFO ''Using local order book data with {len(df)} records'' w1)
          else if df_empty ohlcv_data then
            (Inr empty_df, log WARNING ''No OHLCV data provided for order book alignment'' w1)
          else
            (case column ohlcv_data ''open_time'' of
               Inl e \<Rightarrow> (Inl e, failed w1)
             | Inr timestamps \<Rightarrow>
                 (case fetch_snapshots E self timestamps [] w1 of
                    (Inl e, w2) \<Rightarrow> (Inl e, failed w2)
                  | (Inr all_order_books, w2) \<Rightarrow>
                      if all_order_books \<noteq> [] then
                        (let full_order_book = concat_frames all_order_books in
                         case save_data self full_order_book ''orderbook'' w2 of
                           (Inl e, w3) \<Rightarrow> (Inl e, failed w3)
                         | (Inr u, w3) \<Rightarrow> (Inr full_order_book, w3))
                      else (Inr empty_df, w2))))"

section \<open>The manager (\<^verbatim>\<open>DataManager\<close>)\<close>

record data_manager = base_data +
  ohlcv_fetcher :: ohlcv_data
  orderbook_fetcher :: orderbook_data
  technical_fetcher :: base_data
  sentiment_fetcher :: base_data
  fear_greed_fetcher :: base_data
  fundamental_fetcher :: base_data

definition DataManager :: "string \<Rightarrow> string \<Rightarrow> string \<Rightarrow> data_manager" where
  "DataManager raw ticker iv =
     \<lparr>symbol = upper ticker, interval = iv, data_dir = raw,
      ohlcv_fetcher = OHLCVData raw ticker iv ''https://api.binance.com'',
      orderbook_fetcher = OHLCVData raw ticker iv ''https://api.binance.com'',
      technical_fetcher = BaseData raw ticker iv,
      sentiment_fetcher = BaseData raw ticker iv,
      fear_greed_fetcher = BaseData raw ticker iv,
      fundamental_fetcher = BaseData raw ticker iv\<rparr>"

text \<open>
  \<^verbatim>\<open>fetch_and_store_all\<close>: five calls in sequence inside one \<^verbatim>\<open>try\<close>, whose handler logs and
  raises again. \<open>None\<close> is an OHLCV pagination that has not ended within \<open>fuel\<close> requests.
\<close>

definition fetch_and_store_all ::
  "nat \<Rightarrow> env \<Rightarrow> data_manager \<Rightarrow> world \<Rightarrow> ((error + unit) \<times> world) option" where
  "fetch_and_store_all fuel E self w =
     (let failed = log EXCEPTION ''Error in fetch_and_store_all: {e}'' in
      case OHLCV_fetch_and_store fuel E (ohlcv_fetcher self) w of
        None \<Rightarrow> None
      | Some (Inl e, w1) \<Rightarrow> Some (Inl e, failed w1)
      | Some (Inr ohlcv_data, w1) \<Rightarrow>
          if df_empty ohlcv_data then
            Some (Inr (),
                  log WARNING ''No OHLCV data available, skipping other data types'' w1)
          else
            (case column ohlcv_data ''open_time'' of
               Inl e \<Rightarrow> Some (Inl e, failed w1)
             | Inr open_times \<Rightarrow>
                 (let start_date = series_min open_times; end_date = clock w1 in
                  case OrderBook_fetch_and_store E (orderbook_fetcher self) ohlcv_data w1 of
                    (Inl e, w2) \<Rightarrow> Some (Inl e, failed w2)
                  | (Inr orderbook, w2) \<Rightarrow>
                  (case Technical_fetch_and_store E (technical_fetcher self) ohlcv_data w2 of
                    (Inl e, w3) \<Rightarrow> Some (Inl e, failed w3)
                  | (Inr technical, w3) \<Rightarrow>
                  (case Sentiment_fetch_and_store E (sentiment_fetcher self)
                          start_date end_date w3 of
                    (Inl e, w4) \<Rightarrow> Some (Inl e, failed w4)
                  | (Inr sentiment, w4) \<Rightarrow>
                  (case FearGreed_fetch_and_store E (fear_greed_fetcher self)
                          start_date end_date w4 of
                    (Inl e, w5) \<Rightarrow> Some (Inl e, failed w5)
                  | (Inr fear_greed, w5) \<Rightarrow>
                  (case Fundamental_fetch_and_store E (fundamental_fetcher self)
                          start_date end_date w5 of
                    (Inl e, w6) \<Rightarrow> Some (Inl e, failed w6)
                  | (Inr fundamentals, w6) \<Rightarrow>
                      Some (Inr (),
                            log INFO
                              ''Completed fetching and storing all data for {self.symbol}''
                              w6))))))))"

section \<open>The merge (\<^verbatim>\<open>DataManager.merge_data_for_training\<close>)\<close>

subsection \<open>The pandas operations it uses\<close>

text \<open>
  A column is addressed by its label: an absent label is a KeyError, a label that two columns
  carry makes the operations below raise.
\<close>

definition label_index :: "string list \<Rightarrow> string \<Rightarrow> error + nat" where
  "label_index cols k =
     (case index_of cols k of
        None \<Rightarrow> Inl KeyError
      | Some i \<Rightarrow> if length (filter (\<lambda>c. c = k) cols) = 1 then Inr i else Inl ValueError)"

fun is_val :: "cell \<Rightarrow> bool" where
  "is_val (Val s) = True"
| "is_val c = False"

fun stamp :: "cell \<Rightarrow> cell" where
  "stamp (DateText t) = Stamp t"
| "stamp c = c"

text \<open>\<^verbatim>\<open>df[key] = pd.to_datetime(df[key])\<close>: missing values become NaT, other text raises.\<close>

definition parse_dates :: "table \<Rightarrow> string \<Rightarrow> error + table" where
  "parse_dates df key =
     (case label_index (columns df) key of
        Inl e \<Rightarrow> Inl e
      | Inr i \<Rightarrow>
          if \<exists>r\<in>set (rows df). is_val (cell_at r i) then Inl ValueError
          else Inr (df\<lparr>rows := map (\<lambda>r. r[i := stamp (cell_at r i)]) (rows df)\<rparr>))"

text \<open>\<^verbatim>\<open>df.rename(columns={key: 'open_time'})\<close>.\<close>

definition rename :: "table \<Rightarrow> string \<Rightarrow> string \<Rightarrow> table" where
  "rename df old new = df\<lparr>columns := map (\<lambda>c. if c = old then new else c) (columns df)\<rparr>"

text \<open>\<^verbatim>\<open>df.sort_values(col)\<close>: ascending, rows without a timestamp last.\<close>

definition sort_values :: "table \<Rightarrow> string \<Rightarrow> error + table" where
  "sort_values df col =
     (case label_index (columns df) col of
        Inl e \<Rightarrow> Inl e
      | Inr i \<Rightarrow>
          Inr (df\<lparr>rows := sort_key (\<lambda>r. time_of (cell_at r i))
                              (filter (\<lambda>r. is_time (cell_at r i)) (rows df))
                            @ filter (\<lambda>r. \<not> is_time (cell_at r i)) (rows df)\<rparr>))"

text \<open>
  The search of \<^verbatim>\<open>pd.merge_asof(..., direction='nearest', tolerance=tol)\<close> for one left key
  \<open>t\<close> among right rows sorted by \<open>key\<close>. Backward: the last row not after \<open>t\<close>; forward: the
  first row not before \<open>t\<close>; either is dropped when farther than \<open>tol\<close> from \<open>t\<close>. Of two
  candidates the nearer wins, the backward one on a tie.
\<close>

definition asof_backward ::
  "int \<Rightarrow> (cell list \<Rightarrow> timestamp) \<Rightarrow> cell list list \<Rightarrow> timestamp \<Rightarrow> cell list option" where
  "asof_backward tol key rs t =
     (case filter (\<lambda>r. key r \<le> t) rs of
        [] \<Rightarrow> None
      | x # xs \<Rightarrow> (let r = last (x # xs) in if t - key r > tol then None else Some r))"

definition asof_forward ::
  "int \<Rightarrow> (cell list \<Rightarrow> timestamp) \<Rightarrow> cell list list \<Rightarrow> timestamp \<Rightarrow> cell list option" where
  "asof_forward tol key rs t =
     (case filter (\<lambda>r. t \<le> key r) rs of
        [] \<Rightarrow> None
      | r # xs \<Rightarrow> if key r - t > tol then None else Some r)"

definition asof_nearest ::
  "int \<Rightarrow> (cell list \<Rightarrow> timestamp) \<Rightarrow> cell list list \<Rightarrow> timestamp \<Rightarrow> cell list option" where
  "asof_nearest tol key rs t =
     (case (asof_backward tol key rs t, asof_forward tol key rs t) of
        (Some b, Some f) \<Rightarrow> if (t - key b) - (key f - t) \<le> 0 then Some b else Some f
      | (Some b, None) \<Rightarrow> Some b
      | (None, f) \<Rightarrow> f)"

text \<open>A row brought to the width of its header.\<close>

definition pad :: "nat \<Rightarrow> cell list \<Rightarrow> cell list" where
  "pad n r = take n (r @ replicate n NaN)"

text \<open>
  \<^verbatim>\<open>pd.merge_asof(left, right, left_on=lkey, right_on=rkey, direction='nearest',
  tolerance=tol)\<close> on tables already sorted by their keys. A missing key value on either side
  raises. Every left row is kept, followed by the cells of the right row matched to it, or
  by missing values. A label that both tables carry gets the suffixes \<^verbatim>\<open>_x\<close> and \<^verbatim>\<open>_y\<close>.
\<close>

definition merge_asof :: "table \<Rightarrow> table \<Rightarrow> string \<Rightarrow> string \<Rightarrow> int \<Rightarrow> error + table" where
  "merge_asof left right lkey rkey tol =
     (case label_index (columns left) lkey of
        Inl e \<Rightarrow> Inl e
      | Inr li \<Rightarrow>
          (case label_index (columns right) rkey of
             Inl e \<Rightarrow> Inl e
           | Inr ri \<Rightarrow>
               if (\<exists>r\<in>set (rows left). \<not> is_time (cell_at r li))
                  \<or> (\<exists>r\<in>set (rows right). \<not> is_time (cell_at r ri))
               then Inl ValueError
               else
                 Inr \<lparr>columns =
                        map (\<lambda>c. if c \<in> set (columns right) then c @ ''_x'' else c) (columns left)
                        @ map (\<lambda>c. if c \<in> set (columns left) then c @ ''_y'' else c)
                            (columns right),
                      rows =
                        map (\<lambda>l. pad (length (columns left)) l
                                  @ (case asof_nearest tol (\<lambda>r. time_of (cell_at r ri))
                                           (rows right) (time_of (cell_at l li)) of
                                       None \<Rightarrow> replicate (length (columns right)) NaN
                                     | Some r \<Rightarrow> pad (length (columns right)) r))
                            (rows left)\<rparr>))"

text \<open>\<^verbatim>\<open>df.drop(columns=[key])\<close>: every column with that label goes; KeyError when there is none.\<close>

definition drop_column :: "table \<Rightarrow> string \<Rightarrow> error + table" where
  "drop_column df key =
     (if key \<notin> set (columns df) then Inl KeyError
      else
        (let keep = filter (\<lambda>i. columns df ! i \<noteq> key) [0..<length (columns df)] in
         Inr \<lparr>columns = map (\<lambda>i. columns df ! i) keep,
               rows = map (\<lambda>r. map (\<lambda>i. cell_at r i) keep) (rows df)\<rparr>))"

subsection \<open>The method\<close>

definition merge_data_types :: "string list" where
  "merge_data_types =
     [''ohlcv'', ''orderbook'', ''technical'', ''sentiment'', ''fear_greed'', ''fundamentals'']"

text \<open>One pass of the \<^verbatim>\<open>for\<close> loop for a file that exists: read, parse the key, join.\<close>

definition merge_step :: "table option \<Rightarrow> string \<Rightarrow> cache_file \<Rightarrow> error + table" where
  "merge_step combined_data data_type f =
     (case read_csv f of
        Inl e \<Rightarrow> Inl e
      | Inr df0 \<Rightarrow>
          (let key = key_of data_type in
           case parse_dates df0 key of
             Inl e \<Rightarrow> Inl e
           | Inr df \<Rightarrow>
               (case combined_data of
                  None \<Rightarrow> Inr (rename df key ''open_time'')
                | Some combined \<Rightarrow>
                    (case sort_values combined ''open_time'' of
                       Inl e \<Rightarrow> Inl e
                     | Inr left \<Rightarrow>
                         (case sort_values df key of
                            Inl e \<Rightarrow> Inl e
                          | Inr right \<Rightarrow>
                              (case merge_asof left right ''open_time'' key (hours 4) of
                                 Inl e \<Rightarrow> Inl e
                               | Inr merged \<Rightarrow> drop_column merged key))))))"

fun merge_loop ::
  "'a base_data_scheme \<Rightarrow> string list \<Rightarrow> table option \<Rightarrow> world
     \<Rightarrow> (error + table option) \<times> world" where
  "merge_loop self [] combined_data w = (Inr combined_data, w)"
| "merge_loop self (data_type # rest) combined_data w =
     (case files w (cache_path self data_type) of
        None \<Rightarrow>
          merge_loop self rest combined_data
            (log WARNING ''No {data_type} data found at {file_path}'' w)
      | Some f \<Rightarrow>
          (case merge_step combined_data data_type f of
             Inl e \<Rightarrow> (Inl e, w)
           | Inr combined \<Rightarrow> merge_loop self rest (Some combined) w))"

text \<open>The body of the \<^verbatim>\<open>try\<close>, and the method with its handler.\<close>

definition merge_body :: "'a base_data_scheme \<Rightarrow> world \<Rightarrow> (error + table) \<times> world" where
  "merge_body self w =
     (case merge_loop self merge_data_types None w of
        (Inl e, w1) \<Rightarrow> (Inl e, w1)
      | (Inr None, w1) \<Rightarrow>
          (Inr empty_df, log WARNING ''No data available to merge for {self.symbol}'' w1)
      | (Inr (Some combined_data), w1) \<Rightarrow>
          (case to_csv combined_data (cache_path self ''combined'') w1 of
             (Inl e, w2) \<Rightarrow> (Inl e, w2)
           | (Inr u, w2) \<Rightarrow>
               (Inr combined_data,
                log INFO
                  ''Saved combined data to {combined_path} | Records: {len(combined_data)}''
                  w2)))"

definition merge_data_for_training ::
  "'a base_data_scheme \<Rightarrow> world \<Rightarrow> (error + table) \<times> world" where
  "merge_data_for_training self w =
     (case merge_body self w of
        (Inl e, w1) \<Rightarrow> (Inr empty_df, log EXCEPTION ''Error merging data: {e}'' w1)
      | (Inr df, w1) \<Rightarrow> (Inr df, w1))"

section \<open>Pagination, as the specification describes it\<close>

text \<open>
  A page answers the cursor \<open>cur\<close> well when it holds at most 1000 rows, in increasing
  \<open>open_time\<close> order, none before the cursor.
\<close>

definition page_ok :: "int \<Rightarrow> kline list \<Rightarrow> bool" where
  "page_ok cur page \<longleftrightarrow>
     length page \<le> 1000 \<and> sorted_wrt (<) (map open_time page)
     \<and> (\<forall>k\<in>set page. cur \<le> open_time k)"

text \<open>Every candle of the page closes after it opens.\<close>

definition closes_after_open :: "kline list \<Rightarrow> bool" where
  "closes_after_open page \<longleftrightarrow> (\<forall>k\<in>set page. open_time k < close_time k)"

definition sound_page :: "int \<Rightarrow> kline list \<Rightarrow> bool" where
  "sound_page cur page \<longleftrightarrow> page_ok cur page \<and> closes_after_open page"

text \<open>
  The service, asked with the cursor that the loop computes from the last close time of
  each page, serves \<open>n\<close> full pages and then a page that is empty or shorter than 1000 rows; \<open>good\<close>
  is what every page served must satisfy, given the cursor it answers.
\<close>

fun paged_run ::
  "(int \<Rightarrow> kline list \<Rightarrow> bool) \<Rightarrow> nat \<Rightarrow> env \<Rightarrow> ohlcv_data \<Rightarrow> int \<Rightarrow> world \<Rightarrow> bool" where
  "paged_run good 0 E self cur w =
     (case fetch_historical_ohlcv E self 1000 (Some cur) w of
        (Inr page, w1) \<Rightarrow> good cur page \<and> length page < 1000
      | (Inl e, w1) \<Rightarrow> False)"
| "paged_run good (Suc n) E self cur w =
     (case fetch_historical_ohlcv E self 1000 (Some cur) w of
        (Inr page, w1) \<Rightarrow>
          good cur page \<and> \<not> length page < 1000
          \<and> paged_run good n E self (epoch_ms E (close_time (last page)) + 1) w1
      | (Inl e, w1) \<Rightarrow> False)"


text \<open>Every page the service can serve, whatever was requested before, answers its cursor well.\<close>

definition kline_pages_ok :: "env \<Rightarrow> ohlcv_data \<Rightarrow> bool" where
  "kline_pages_ok E self \<longleftrightarrow>
     (\<forall>cur w page. fst (fetch_historical_ohlcv E self 1000 (Some cur) w) = Inr page \<longrightarrow>
        page_ok cur page)"

section \<open>The merge, as the specification describes it\<close>

text \<open>
  The cached series of the given data types, in their order: a type whose file is missing
  is skipped.
\<close>

definition cached_series ::
  "'a base_data_scheme \<Rightarrow> world \<Rightarrow> string list \<Rightarrow> (string \<times> cache_file) list" where
  "cached_series self w data_types =
     concat (map (\<lambda>data_type. case files w (cache_path self data_type) of
                                  None \<Rightarrow> []
                                | Some f \<Rightarrow> [(data_type, f)]) data_types)"

text \<open>
  Each series in turn is read, its timestamp column parsed, and joined onto the running
  table: the first series becomes the running table, its key named \<^verbatim>\<open>open_time\<close>; every
  later one is nearest-joined onto it on \<^verbatim>\<open>open_time\<close> with a tolerance of four hours.
\<close>

definition join_onto :: "table option \<Rightarrow> string \<Rightarrow> table \<Rightarrow> error + table" where
  "join_onto running data_type df =
     (case running of
        None \<Rightarrow> Inr (rename df (key_of data_type) ''open_time'')
      | Some combined \<Rightarrow>
          (case sort_values combined ''open_time'' of
             Inl e \<Rightarrow> Inl e
           | Inr left \<Rightarrow>
               (case sort_values df (key_of data_type) of
                  Inl e \<Rightarrow> Inl e
                | Inr right \<Rightarrow>
                    (case merge_asof left right ''open_time'' (key_of data_type) (hours 4) of
                       Inl e \<Rightarrow> Inl e
                     | Inr merged \<Rightarrow> drop_column merged (key_of data_type)))))"

fun join_series :: "table option \<Rightarrow> (string \<times> cache_file) list \<Rightarrow> error + table option" where
  "join_series running [] = Inr running"
| "join_series running ((data_type, f) # rest) =
     (case read_csv f of
        Inl e \<Rightarrow> Inl e
      | Inr df0 \<Rightarrow>
          (case parse_dates df0 (key_of data_type) of
             Inl e \<Rightarrow> Inl e
           | Inr df \<Rightarrow>
               (case join_onto running data_type df of
                  Inl e \<Rightarrow> Inl e
                | Inr combined \<Rightarrow> join_series (Some combined) rest)))"

text \<open>
  The combined table of the given data types: the empty table when nothing is cached, when
  a step raises, or when the combined file cannot be written.
\<close>

definition merge_spec :: "string list \<Rightarrow> 'a base_data_scheme \<Rightarrow> world \<Rightarrow> table" where
  "merge_spec data_types self w =
     (case join_series None (cached_series self w data_types) of
        Inl e \<Rightarrow> empty_df
      | Inr None \<Rightarrow> empty_df
      | Inr (Some combined) \<Rightarrow>
          if readonly w (cache_path self ''combined'') then empty_df else combined)"

definition spec_data_types :: "string list" where
  "spec_data_types =
     [''ohlcv'', ''orderbook'', ''technical'', ''sentiment'', ''fear_greed'', ''fundamentals'',
      ''macro'', ''onchain'']"

text \<open>Two worlds with the same files, permissions and clock.\<close>

definition same_store :: "world \<Rightarrow> world \<Rightarrow> bool" where
  "same_store w w' \<longleftrightarrow> files w' = files w \<and> readonly w' = readonly w \<and> clock w' = clock w"

section \<open>Example inputs\<close>

definition ex_self :: base_data where
  "ex_self = \<lparr>symbol = ''BTCUSDT'', interval = ''4h'', data_dir = ''data''\<rparr>"

definition ex_table :: table where
  "ex_table = \<lparr>columns = [''open_time'', ''close''], rows = [[DateText 0, Val ''100.0'']]\<rparr>"

text \<open>A cache that holds one OHLCV file, written at instant 0, read at instant \<open>now\<close>.\<close>

definition ex_world :: "timestamp \<Rightarrow> world" where
  "ex_world now =
     \<lparr>files = [''data/BTCUSDT_4h_ohlcv.csv'' \<mapsto> Csv ex_table], readonly = (\<lambda>p. False),
      clock = now, logged = [], sent = []\<rparr>"

text \<open>The same cache with a file that cannot be parsed: a file of zero bytes.\<close>

definition ex_corrupt_world :: world where
  "ex_corrupt_world =
     \<lparr>files = [''data/BTCUSDT_4h_ohlcv.csv'' \<mapsto> Corrupt], readonly = (\<lambda>p. False),
      clock = 0, logged = [], sent = []\<rparr>"



definition ex_ohlcv :: ohlcv_data where
  "ex_ohlcv = \<lparr>symbol = ''BTCUSDT'', interval = ''4h'', data_dir = ''data'',
               base_url = ''https://api.binance.com''\<rparr>"

definition ex_fresh_world :: world where
  "ex_fresh_world =
     \<lparr>files = Map.empty, readonly = (\<lambda>p. False), clock = hours 100, logged = [], sent = []\<rparr>"

text \<open>
  An environment with no network: every request fails. Its conversion to epoch
  milliseconds is exact, as the float conversion is at the instants that the examples
  built on it convert: 0h, 12h, and the millisecond before 4004h.
\<close>

definition offline :: env where
  "offline =
     \<lparr>binance_exchange_info = (\<lambda>h r. RequestFailed), binance_klines = (\<lambda>h r. RequestFailed),
      binance_depth = (\<lambda>h r. RequestFailed), alternative_me = (\<lambda>h r. RequestFailed),
      coingecko = (\<lambda>h r. RequestFailed), coinmetrics = (\<lambda>h r. RequestFailed),
      yfinance = (\<lambda>h r. RequestFailed), float_sub = (\<lambda>a b. ''0.0''),
      float_sum = (\<lambda>xs. ''0.0''), pct_change = map (\<lambda>x. ''0.0''),
      talib = (\<lambda>cs. Inr (map (\<lambda>c. replicate 8 NaN) cs)), vader_compound = (\<lambda>s. ''0.0''),
      resample_4h_ffill = Inr, epoch_ms = (\<lambda>t. t)\<rparr>"

text \<open>A four-hour candle that opens at \<open>t\<close>, and \<open>n\<close> consecutive ones from \<open>t\<close> on.\<close>

definition candle :: "timestamp \<Rightarrow> kline" where
  "candle t =
     \<lparr>open_time = t, open_price = ''1.0'', high_price = ''1.0'', low_price = ''1.0'',
      close_price = ''1.0'', volume = ''1.0'', close_time = t + hours 4 - 1\<rparr>"

definition candles_from :: "timestamp \<Rightarrow> nat \<Rightarrow> kline list" where
  "candles_from t n = map (\<lambda>i. candle (t + hours 4 * int i)) [0..<n]"

definition start_of :: "request \<Rightarrow> int option" where
  "start_of r = (case map_of (params r) ''startTime'' of Some (PInt s) \<Rightarrow> Some s | _ \<Rightarrow> None)"

definition limit_of :: "request \<Rightarrow> nat" where
  "limit_of r = (case map_of (params r) ''limit'' of Some (PInt n) \<Rightarrow> nat n | _ \<Rightarrow> 500)"

text \<open>
  An exchange that lists BTCUSDT with three candles, opening at 4h, 8h and 12h. Its kline
  endpoint does what Binance documents: from \<^verbatim>\<open>startTime\<close> on when the request carries one,
  and the most recent candles when it carries none.
\<close>

definition listed :: "kline list" where
  "listed = candles_from (hours 4) 3"

definition ex_klines :: "request list \<Rightarrow> request \<Rightarrow> kline list response" where
  "ex_klines h r =
     (case start_of r of
        None \<Rightarrow> Body (drop (length listed - limit_of r) listed)
      | Some s \<Rightarrow> Body (take (limit_of r) (filter (\<lambda>k. s \<le> open_time k) listed)))"

definition ex_binance :: env where
  "ex_binance = offline\<lparr>binance_exchange_info := (\<lambda>h r. Body [''ETHUSDT'', ''BTCUSDT'']),
                        binance_klines := ex_klines\<rparr>"




text \<open>
  A kline endpoint with a long history: 1000 candles from 4h on, then one more. Asked from
  a cursor up to 4h it serves the first 1000; asked from the cursor after those, the last.
\<close>

definition long_klines :: "request list \<Rightarrow> request \<Rightarrow> kline list response" where
  "long_klines h r =
     (case start_of r of
        None \<Rightarrow> Body []
      | Some s \<Rightarrow>
          if s \<le> hours 4 then Body (candles_from (hours 4) 1000)
          else if s \<le> hours 4004 then Body [candle (hours 4004)]
          else Body [])"

definition long_binance :: env where
  "long_binance = offline\<lparr>binance_klines := long_klines\<rparr>"

text \<open>
  A kline endpoint that lists 1000 candles of no duration, opening and closing at the
  milliseconds 2 to 1001, and serves them from \<^verbatim>\<open>startTime\<close> on (from the first one when the
  request carries none), \<^verbatim>\<open>limit\<close> at a time. The conversion of its environment is what the
  float arithmetic gives on the instants up to 2001 ms: one millisecond short at the odd
  instants from 1001 to 1023, exact elsewhere.
\<close>

definition instant_candle :: "timestamp \<Rightarrow> kline" where
  "instant_candle t = (candle t)\<lparr>close_time := t\<rparr>"

definition instants :: "kline list" where
  "instants = map (\<lambda>i. instant_candle (2 + int i)) [0..<1000]"

definition instant_klines :: "request list \<Rightarrow> request \<Rightarrow> kline list response" where
  "instant_klines h r =
     (let c = (case start_of r of None \<Rightarrow> 0 | Some s \<Rightarrow> s) in
      Body (take (limit_of r) (filter (\<lambda>k. c \<le> open_time k) instants)))"

definition float_epoch_ms :: "timestamp \<Rightarrow> int" where
  "float_epoch_ms t = (if 1000 < t \<and> t < 1024 \<and> odd t then t - 1 else t)"

definition instant_binance :: env where
  "instant_binance = offline\<lparr>binance_klines := instant_klines, epoch_ms := float_epoch_ms\<rparr>"


text \<open>An environment where only the fear and greed ticker answers.\<close>

definition calm :: env where
  "calm = offline\<lparr>alternative_me := (\<lambda>h r. Body ''52'')\<rparr>"


definition ex_onchain :: onchain_data where
  "ex_onchain = \<lparr>symbol = ''BTCUSDT'', interval = ''4h'', data_dir = ''data'',
                 onchain_url = ''https://community-api.coinmetrics.io/v4'', coin = ''btc''\<rparr>"

text \<open>The manager that \<^verbatim>\<open>DataManager('btcusdt')\<close> builds when the configured directory is \<^verbatim>\<open>data\<close>.\<close>

definition ex_manager :: data_manager where
  "ex_manager =
     \<lparr>symbol = ''BTCUSDT'', interval = ''4h'', data_dir = ''data'',
      ohlcv_fetcher = ex_ohlcv, orderbook_fetcher = ex_ohlcv, technical_fetcher = ex_self,
      sentiment_fetcher = ex_self, fear_greed_fetcher = ex_self,
      fundamental_fetcher = ex_self\<rparr>"

text \<open>
  The worlds that a run of \<^verbatim>\<open>fetch_and_store_all\<close> on that exchange goes through: after the
  OHLCV fetch, and after the order book fetch that follows it.
\<close>

definition ex_after_ohlcv :: world where
  "ex_after_ohlcv = snd (the (OHLCV_fetch_and_store 2 ex_binance ex_ohlcv ex_fresh_world))"

definition ex_after_orderbook :: world where
  "ex_after_orderbook =
     snd (OrderBook_fetch_and_store ex_binance ex_ohlcv (ohlcv_frame [candle (hours 12)])
            ex_after_ohlcv)"

text \<open>A cache that holds a macro series and nothing else.\<close>

definition ex_macro :: table where
  "ex_macro = \<lparr>columns = [''timestamp'', ''sp500_returns''], rows = [[DateText 0, Val ''0.01'']]\<rparr>"

definition ex_macro_world :: world where
  "ex_macro_world =
     \<lparr>files = [''data/BTCUSDT_4h_macro.csv'' \<mapsto> Csv ex_macro], readonly = (\<lambda>p. False),
      clock = 0, logged = [], sent = []\<rparr>"

text \<open>
  Two candles, at 0h and 4h, and a sentiment series with a score one hour after the first
  candle and another twenty hours after it.
\<close>

definition ex_candles :: table where
  "ex_candles =
     \<lparr>columns = [''open_time'', ''close''],
      rows = [[Stamp 0, Val ''100.0''], [Stamp (hours 4), Val ''102.0'']]\<rparr>"

definition ex_scores :: table where
  "ex_scores =
     \<lparr>columns = [''timestamp'', ''social_sentiment''],
      rows = [[Stamp (hours 1), Val ''0.1''], [Stamp (hours 20), Val ''0.9'']]\<rparr>"

definition ex_joined :: table where
  "ex_joined =
     \<lparr>columns = [''open_time'', ''close'', ''timestamp'', ''social_sentiment''],
      rows = [[Stamp 0, Val ''100.0'', Stamp (hours 1), Val ''0.1''],
              [Stamp (hours 4), Val ''102.0'', Stamp (hours 1), Val ''0.1'']]\<rparr>"

definition ex_merge_world :: world where
  "ex_merge_world =
     \<lparr>files = [''data/BTCUSDT_4h_ohlcv.csv'' \<mapsto> Csv ex_candles,
               ''data/BTCUSDT_4h_sentiment.csv'' \<mapsto> Csv ex_scores],
      readonly = (\<lambda>p. False), clock = 0, logged = [], sent = []\<rparr>"

text \<open>The cache of \<open>ex_world\<close> in a directory that cannot be written.\<close>

definition ex_readonly_world :: world where
  "ex_readonly_world = (ex_world 0)\<lparr>readonly := (\<lambda>p. True)\<rparr>"

text \<open>A sentiment file whose timestamp column holds text that is no date.\<close>

definition ex_bad_scores :: table where
  "ex_bad_scores =
     \<lparr>columns = [''timestamp'', ''social_sentiment''], rows = [[Val ''soon'', Val ''0.1'']]\<rparr>"

definition ex_bad_join_world :: world where
  "ex_bad_join_world =
     \<lparr>files = [''data/BTCUSDT_4h_ohlcv.csv'' \<mapsto> Csv ex_candles,
               ''data/BTCUSDT_4h_sentiment.csv'' \<mapsto> Csv ex_bad_scores],
      readonly = (\<lambda>p. False), clock = 0, logged = [], sent = []\<rparr>"

section \<open>The objects of the examples\<close>

text \<open>The constructors, with \<^verbatim>\<open>data\<close> as the configured directory, build the example objects.\<close>

lemma ex_objects_built:
  "BaseData ''data'' ''btcusdt'' ''4h'' = ex_self"
  "OHLCVData ''data'' ''btcusdt'' ''4h'' ''https://api.binance.com'' = ex_ohlcv"
  "OnChainData ''data'' ''btcusdt'' ''4h'' ''https://community-api.coinmetrics.io/v4'' = ex_onchain"
  "DataManager ''data'' ''btcusdt'' ''4h'' = ex_manager"
  by code_simp+

section \<open>The cache check\<close>

lemma ex_cache_path: "cache_path ex_self ''ohlcv'' = ''data/BTCUSDT_4h_ohlcv.csv''"
  by (simp add: cache_path_def ex_self_def path_join_def)

lemma fold_later_times:
  "is_time x \<Longrightarrow> \<forall>c\<in>set xs. is_time c \<Longrightarrow>
     is_time (fold later xs x) \<and> time_of (fold later xs x) = Max (time_of ` set (x # xs))"
proof (induction xs arbitrary: x)
  case Nil
  then show ?case by simp
next
  case (Cons y ys)
  have ty: "is_time y" and tys: "\<forall>c\<in>set ys. is_time c" using Cons.prems(2) by simp_all
  have tl: "is_time (later y x)" and ml: "time_of (later y x) = max (time_of x) (time_of y)"
    using Cons.prems(1) ty by (cases x; cases y; simp)+
  from Cons.IH[OF tl tys]
  have "is_time (fold later ys (later y x))"
    and "time_of (fold later ys (later y x)) = Max (time_of ` set (later y x # ys))" by simp_all
  moreover have "Max (time_of ` set (later y x # ys)) = Max (time_of ` set (x # y # ys))"
  proof (cases "ys = []")
    case True
    then show ?thesis using ml by simp
  next
    case False
    then have ne: "time_of ` set ys \<noteq> {}" by simp
    have fin: "finite (time_of ` set ys)" by simp
    show ?thesis using ml Max_insert[OF fin ne] by (simp add: max.assoc)
  qed
  ultimately show ?case by simp
qed

lemma series_max_times:
  assumes "cs \<noteq> []" and "\<forall>c\<in>set cs. is_time c"
  shows "to_datetime (series_max cs) = Inr (Some (Max (time_of ` set cs)))"
proof -
  have "\<forall>c\<in>set cs. c \<noteq> NaN" using assms(2) by auto
  then have f: "filter (\<lambda>c. c \<noteq> NaN) cs = cs" by (simp add: filter_id_conv)
  obtain x xs where cs: "cs = x # xs" using assms(1) by (cases cs) auto
  have "is_time (fold later xs x) \<and> time_of (fold later xs x) = Max (time_of ` set (x # xs))"
    using fold_later_times[of x xs] assms(2) cs by simp
  then have "to_datetime (fold later xs x) = Inr (Some (Max (time_of ` set (x # xs))))"
    by (cases "fold later xs x") auto
  then show ?thesis using f cs by (simp add: series_max_def)
qed

text \<open>
  C1, as the code has it. For every cache key the check gives \<open>(False, empty table)\<close> when
  the file is absent or parses to an empty table. For a file that parses to a non-empty
  table whose primary timestamp column holds datetimes only, it gives the cached table
  itself, with the flag \<open>True\<close> exactly when \<open>now - max timestamp < 4 hours\<close>: a stale
  table is returned with the flag \<open>False\<close>, not replaced by the empty table.
\<close>

theorem check_local_data_result:
  "(files w (cache_path self data_type) = None \<longrightarrow>
      fst (check_local_data self data_type w) = Inr (False, empty_df))
   \<and> (\<forall>df. files w (cache_path self data_type) = Some (Csv df) \<and> df_empty df \<longrightarrow>
      fst (check_local_data self data_type w) = Inr (False, empty_df))
   \<and> (\<forall>df cs. files w (cache_path self data_type) = Some (Csv df) \<and> \<not> df_empty df
          \<and> column df (key_of data_type) = Inr cs \<and> (\<forall>c\<in>set cs. is_time c) \<longrightarrow>
      fst (check_local_data self data_type w)
        = Inr (clock w - Max (time_of ` set cs) < hours 4, df))"
proof (intro conjI allI impI)
  assume "files w (cache_path self data_type) = None"
  then show "fst (check_local_data self data_type w) = Inr (False, empty_df)"
    by (simp add: check_local_data_def)
next
  fix df
  assume "files w (cache_path self data_type) = Some (Csv df) \<and> df_empty df"
  then show "fst (check_local_data self data_type w) = Inr (False, empty_df)"
    by (simp add: check_local_data_def)
next
  fix df cs
  assume a: "files w (cache_path self data_type) = Some (Csv df) \<and> \<not> df_empty df
          \<and> column df (key_of data_type) = Inr cs \<and> (\<forall>c\<in>set cs. is_time c)"
  then have "rows df \<noteq> []" by (simp add: df_empty_def)
  moreover have "length cs = length (rows df)"
    using a by (auto simp: column_def split: option.splits)
  ultimately have "cs \<noteq> []" by auto
  then have "to_datetime (series_max cs) = Inr (Some (Max (time_of ` set cs)))"
    using a series_max_times by blast
  then show "fst (check_local_data self data_type w)
        = Inr (clock w - Max (time_of ` set cs) < hours 4, df)"
    using a by (simp add: check_local_data_def)
qed

theorem check_local_data_result_witness:
  "fst (check_local_data ex_self ''ohlcv'' (ex_world (hours 3))) = Inr (True, ex_table)
   \<and> fst (check_local_data ex_self ''ohlcv'' (ex_world (hours 9))) = Inr (False, ex_table)
   \<and> fst (check_local_data ex_self ''sentiment'' (ex_world (hours 3))) = Inr (False, empty_df)"
proof -
  have h: "files (ex_world now) (cache_path ex_self ''ohlcv'') = Some (Csv ex_table)
      \<and> \<not> df_empty ex_table \<and> column ex_table (key_of ''ohlcv'') = Inr [DateText 0]
      \<and> (\<forall>c\<in>set [DateText 0]. is_time c)" for now
    by (simp add: ex_cache_path ex_world_def ex_table_def df_empty_def column_def key_of_def
        cell_at_def)
  have r: "fst (check_local_data ex_self ''ohlcv'' (ex_world now))
      = Inr (clock (ex_world now) - Max (time_of ` set [DateText 0]) < hours 4, ex_table)" for now
    using check_local_data_result[of "ex_world now" ex_self "''ohlcv''"] h[of now] by blast
  have n: "files (ex_world (hours 3)) (cache_path ex_self ''sentiment'') = None"
    by (simp add: cache_path_def ex_self_def path_join_def ex_world_def)
  have "fst (check_local_data ex_self ''sentiment'' (ex_world (hours 3))) = Inr (False, empty_df)"
    using check_local_data_result[of "ex_world (hours 3)" ex_self "''sentiment''"] n by blast
  then show ?thesis using r[of "hours 3"] r[of "hours 9"] by (simp add: ex_world_def hours_def)
qed

text \<open>
  The claim as the specification words it fails twice: a table older than four hours comes
  back as it is, not as the empty table, and a table exactly four hours old counts as
  stale.
\<close>

theorem check_local_data_stale_counterexample:
  "fst (check_local_data ex_self ''ohlcv'' (ex_world (hours 5))) = Inr (False, ex_table)
   \<and> ex_table \<noteq> empty_df
   \<and> fst (check_local_data ex_self ''ohlcv'' (ex_world (hours 4))) = Inr (False, ex_table)"
  by (simp add: check_local_data_def ex_cache_path ex_world_def ex_table_def df_empty_def
      column_def key_of_def cell_at_def series_max_def hours_def empty_df_def log_def)

section \<open>What each operation leaves unchanged\<close>

lemma same_store_refl [simp]: "same_store w w"
  by (simp add: same_store_def)

lemma same_store_trans: "same_store w w1 \<Longrightarrow> same_store w1 w2 \<Longrightarrow> same_store w w2"
  by (simp add: same_store_def)

lemma same_store_log [simp]: "same_store w (log lv msg w')  \<longleftrightarrow> same_store w w'"
  by (simp add: same_store_def log_def)

lemma sent_log [simp]: "sent (log lv msg w) = sent w"
  by (simp add: log_def)

lemma http_get_frame:
  "http_get service r w = (x, w') \<Longrightarrow> same_store w w' \<and> sent w' = sent w @ [r]"
  by (auto simp: http_get_def same_store_def)

lemma fetch_historical_ohlcv_frame:
  "fetch_historical_ohlcv E self l s w = (r, w') \<Longrightarrow>
     same_store w w' \<and> sent w' = sent w @ [kline_request self l s]"
  by (auto simp: fetch_historical_ohlcv_def http_get_def same_store_def log_def Let_def
      split: response.splits if_splits)

lemma fetch_historical_ohlcv_result:
  "fst (fetch_historical_ohlcv E self l s w) =
     (case binance_klines E (sent w) (kline_request self l s) of
        RequestFailed \<Rightarrow> Inl RequestException
      | Malformed \<Rightarrow> Inl ValueError
      | Body d \<Rightarrow> Inr d)"
  by (auto simp: fetch_historical_ohlcv_def http_get_def log_def Let_def split: response.splits)

lemma get_symbol_listing_date_frame:
  "get_symbol_listing_date E self w = (r, w') \<Longrightarrow> same_store w w'"
  by (auto simp: get_symbol_listing_date_def Let_def 
      split: prod.splits response.splits if_splits sum.splits
      dest!: http_get_frame fetch_historical_ohlcv_frame intro: same_store_trans)

lemma fetch_loop_frame:
  "fetch_loop fuel E self cur acc w = Some (r, w') \<Longrightarrow> same_store w w'"
proof (induction fuel arbitrary: cur acc w)
  case 0
  then show ?case by simp
next
  case (Suc fuel)
  obtain x w1 where f: "fetch_historical_ohlcv E self 1000 (Some cur) w = (x, w1)"
    by (cases "fetch_historical_ohlcv E self 1000 (Some cur) w") auto
  then have s: "same_store w w1" using fetch_historical_ohlcv_frame by blast
  show ?case
  proof (cases x)
    case (Inl e)
    then show ?thesis using Suc.prems f s by simp
  next
    case (Inr page)
    then show ?thesis using Suc.prems f s Suc.IH
      by (auto split: if_splits intro: same_store_trans)
  qed
qed

section \<open>The listing-date probe\<close>

lemma start_of_kline_request:
  "start_of (kline_request self l s) = (if truthy s then s else None)"
  by (cases s) (auto simp: start_of_def kline_request_def)

lemma limit_of_kline_request: "limit_of (kline_request self l s) = nat l"
  by (simp add: limit_of_def kline_request_def Let_def)

lemma listed_eq: "listed = [candle (hours 4), candle (hours 8), candle (hours 12)]"
  by (simp add: listed_def candles_from_def upt_rec hours_def)

lemma open_time_candle [simp]: "open_time (candle t) = t"
  by (simp add: candle_def)

lemma close_time_candle [simp]: "close_time (candle t) = t + hours 4 - 1"
  by (simp add: candle_def)

lemma ex_probe: "ex_klines h (kline_request ex_ohlcv 1 (Some 0)) = Body [candle (hours 12)]"
  by (simp add: ex_klines_def start_of_kline_request limit_of_kline_request listed_eq)

lemma ex_page:
  "ex_klines h (kline_request ex_ohlcv 1000 (Some (hours 12))) = Body [candle (hours 12)]"
  by (simp add: ex_klines_def start_of_kline_request limit_of_kline_request listed_eq hours_def)

lemma ex_listing_date:
  "fst (get_symbol_listing_date ex_binance ex_ohlcv w) = Inr (hours 12)"
proof -
  define w1 where
    "w1 = w\<lparr>sent := sent w @ [\<lparr>endpoint = base_url ex_ohlcv @ ''/api/v3/exchangeInfo'',
                                   params = []\<rparr>]\<rparr>"
  have h: "http_get (binance_exchange_info ex_binance)
             \<lparr>endpoint = base_url ex_ohlcv @ ''/api/v3/exchangeInfo'', params = []\<rparr> w
           = (Body [''ETHUSDT'', ''BTCUSDT''], w1)"
    by (simp add: http_get_def ex_binance_def offline_def w1_def)
  have "fst (fetch_historical_ohlcv ex_binance ex_ohlcv 1 (Some 0) w1) = Inr [candle (hours 12)]"
    by (simp add: fetch_historical_ohlcv_result ex_binance_def ex_probe)
  then obtain w2 where
    f: "fetch_historical_ohlcv ex_binance ex_ohlcv 1 (Some 0) w1 = (Inr [candle (hours 12)], w2)"
    by (cases "fetch_historical_ohlcv ex_binance ex_ohlcv 1 (Some 0) w1") auto
  have e: "epoch_ms ex_binance (hours 12) = hours 12" by (simp add: ex_binance_def offline_def)
  have "symbol ex_ohlcv \<in> set [''ETHUSDT'', ''BTCUSDT'']" by (simp add: ex_ohlcv_def)
  then show ?thesis using h f e by (simp add: get_symbol_listing_date_def Let_def)
qed

lemma ex_loop:
  "map_option fst (fetch_loop 2 ex_binance ex_ohlcv (hours 12) [] w) = Some (Inr [[candle (hours 12)]])"
proof -
  obtain x w1 where f: "fetch_historical_ohlcv ex_binance ex_ohlcv 1000 (Some (hours 12)) w = (x, w1)"
    by (cases "fetch_historical_ohlcv ex_binance ex_ohlcv 1000 (Some (hours 12)) w") auto
  have "fst (fetch_historical_ohlcv ex_binance ex_ohlcv 1000 (Some (hours 12)) w) = Inr [candle (hours 12)]"
    by (simp add: fetch_historical_ohlcv_result ex_binance_def ex_page)
  then have "x = Inr [candle (hours 12)]" using f by simp
  then show ?thesis using f by (simp add: numeral_2_eq_2)
qed

lemma check_absent:
  "files w (cache_path self data_type) = None \<Longrightarrow>
     \<exists>w1. check_local_data self data_type w = (Inr (False, empty_df), w1) \<and> same_store w w1
        \<and> sent w1 = sent w"
  by (simp add: check_local_data_def)

lemma save_data_ok:
  "\<not> readonly w (cache_path self data_type) \<Longrightarrow> fst (save_data self df data_type w) = Inr ()"
  by (simp add: save_data_def to_csv_def)

lemma ex_store_run:
  "map_option fst (OHLCV_fetch_and_store 2 ex_binance ex_ohlcv ex_fresh_world)
     = Some (Inr (ohlcv_frame [candle (hours 12)]))"
proof -
  obtain w1 where c: "check_local_data ex_ohlcv ''ohlcv'' ex_fresh_world = (Inr (False, empty_df), w1)"
    and s1: "same_store ex_fresh_world w1"
    using check_absent[of ex_fresh_world ex_ohlcv "''ohlcv''"] by (auto simp: ex_fresh_world_def)
  obtain w2 where l: "get_symbol_listing_date ex_binance ex_ohlcv w1 = (Inr (hours 12), w2)"
    using ex_listing_date[of w1] by (cases "get_symbol_listing_date ex_binance ex_ohlcv w1") auto
  have s2: "same_store w1 w2" using get_symbol_listing_date_frame[OF l] .
  obtain w3 where f: "fetch_loop 2 ex_binance ex_ohlcv (hours 12) [] w2 = Some (Inr [[candle (hours 12)]], w3)"
    using ex_loop[of w2] by auto
  have s3: "same_store w2 w3" using fetch_loop_frame[OF f] .
  have "readonly w3 = readonly ex_fresh_world" using s1 s2 s3 by (simp add: same_store_def)
  then have "\<not> readonly w3 (cache_path ex_ohlcv ''ohlcv'')" by (simp add: ex_fresh_world_def)
  then have sv: "fst (save_data ex_ohlcv (ohlcv_frame [candle (hours 12)]) ''ohlcv'' w3) = Inr ()"
    by (rule save_data_ok)
  show ?thesis
    using c l f sv by (auto simp: OHLCV_fetch_and_store_def Let_def split: prod.splits)
qed

text \<open>
  C2. The probe \<^verbatim>\<open>fetch_historical_ohlcv(limit=1, start_time=0)\<close> sends a request without
  \<^verbatim>\<open>startTime\<close>, because \<^verbatim>\<open>if start_time:\<close> is false for 0. On an exchange that lists
  candles opening at 4h, 8h and 12h and answers a request without \<^verbatim>\<open>startTime\<close> with the
  most recent candles, the listing date comes out as 12h, the latest candle, and the fetch
  stores that one candle only.
\<close>

theorem listing_probe_omits_start_time:
  "params (kline_request ex_ohlcv 1 (Some 0))
     = [(''symbol'', PStr ''BTCUSDT''), (''interval'', PStr ''4h''), (''limit'', PInt 1)]
   \<and> fst (get_symbol_listing_date ex_binance ex_ohlcv ex_fresh_world) = Inr (hours 12)
   \<and> map_option fst (OHLCV_fetch_and_store 2 ex_binance ex_ohlcv ex_fresh_world)
       = Some (Inr (ohlcv_frame [candle (hours 12)]))"
proof (intro conjI)
  show "params (kline_request ex_ohlcv 1 (Some 0))
     = [(''symbol'', PStr ''BTCUSDT''), (''interval'', PStr ''4h''), (''limit'', PInt 1)]"
    by (simp add: kline_request_def ex_ohlcv_def)
  show "fst (get_symbol_listing_date ex_binance ex_ohlcv ex_fresh_world) = Inr (hours 12)"
    by (rule ex_listing_date)
  show "map_option fst (OHLCV_fetch_and_store 2 ex_binance ex_ohlcv ex_fresh_world)
       = Some (Inr (ohlcv_frame [candle (hours 12)]))"
    by (rule ex_store_run)
qed

section \<open>Pagination\<close>

lemma sorted_le_last:
  "sorted_wrt (<) (xs :: int list) \<Longrightarrow> x \<in> set xs \<Longrightarrow> x \<le> last xs"
  by (induction xs) (auto simp: less_imp_le)

lemma fetch_loop_run:
  assumes conv: "\<And>t. t - 1 \<le> epoch_ms E t"
  shows "paged_run sound_page n E self cur w \<Longrightarrow> n < fuel \<Longrightarrow>
         sorted_wrt (<) (map open_time (concat acc)) \<Longrightarrow>
         \<forall>k\<in>set (concat acc). open_time k < cur \<Longrightarrow>
         \<exists>pages w'. fetch_loop fuel E self cur acc w = Some (Inr pages, w')
            \<and> length (sent w') = length (sent w) + n + 1
            \<and> sorted_wrt (<) (map open_time (concat pages))"
proof (induction n arbitrary: fuel cur acc w)
  case 0
  then obtain f where fuel: "fuel = Suc f" by (cases fuel) auto
  obtain r w1 where fr: "fetch_historical_ohlcv E self 1000 (Some cur) w = (r, w1)"
    by (cases "fetch_historical_ohlcv E self 1000 (Some cur) w") auto
  with "0.prems"(1) obtain page where r: "r = Inr page" and short: "length page < 1000"
    and sp: "sound_page cur page"
    by (cases r) auto
  have ok: "page_ok cur page" using sp by (simp add: sound_page_def)
  have s1: "length (sent w1) = length (sent w) + 1" using fetch_historical_ohlcv_frame[OF fr] by simp
  have pg: "sorted_wrt (<) (map open_time page)" "\<forall>k\<in>set page. cur \<le> open_time k"
    using ok unfolding page_ok_def by simp_all
  have "sorted_wrt (<) (map open_time (concat (acc @ [page])))"
    using "0.prems"(3,4) pg by (fastforce simp: sorted_wrt_append)
  then show ?case using fuel fr r short s1 "0.prems"(3) by auto
next
  case (Suc n)
  then obtain f where fuel: "fuel = Suc f" and nf: "n < f" by (cases fuel) auto
  obtain r w1 where fr: "fetch_historical_ohlcv E self 1000 (Some cur) w = (r, w1)"
    by (cases "fetch_historical_ohlcv E self 1000 (Some cur) w") auto
  with Suc.prems(1) obtain page where r: "r = Inr page" and full: "\<not> length page < 1000"
    and sp: "sound_page cur page"
    and rest: "paged_run sound_page n E self (epoch_ms E (close_time (last page)) + 1) w1"
    by (cases r) auto
  define nxt where "nxt = epoch_ms E (close_time (last page)) + 1"
  have ok: "page_ok cur page" and ca: "closes_after_open page"
    using sp by (simp_all add: sound_page_def)
  have ne: "page \<noteq> []" using full by auto
  have s1: "length (sent w1) = length (sent w) + 1" using fetch_historical_ohlcv_frame[OF fr] by simp
  have pg: "sorted_wrt (<) (map open_time page)" "\<forall>k\<in>set page. cur \<le> open_time k"
    using ok unfolding page_ok_def by simp_all
  have "open_time (last page) < close_time (last page)"
    using ca ne unfolding closes_after_open_def by simp
  then have cl: "open_time (last page) < nxt"
    using conv[of "close_time (last page)"] unfolding nxt_def by linarith
  have srt: "sorted_wrt (<) (map open_time (concat (acc @ [page])))"
    using Suc.prems(3,4) pg by (fastforce simp: sorted_wrt_append)
  have inpage: "open_time k \<le> open_time (last page)" if "k \<in> set page" for k
    using sorted_le_last[OF pg(1), of "open_time k"] that ne by (simp add: last_map)
  have below: "\<forall>k\<in>set (concat (acc @ [page])). open_time k < nxt"
  proof
    fix k assume "k \<in> set (concat (acc @ [page]))"
    then consider "k \<in> set (concat acc)" | "k \<in> set page" by auto
    then show "open_time k < nxt"
    proof cases
      case 1
      then have "open_time k < cur" using Suc.prems(4) by blast
      moreover have "cur \<le> open_time (last page)" using pg(2) ne by simp
      ultimately show ?thesis using cl by linarith
    next
      case 2
      then show ?thesis using inpage[of k] cl by linarith
    qed
  qed
  from Suc.IH[OF rest[folded nxt_def] nf srt below] obtain pages w' where
    "fetch_loop f E self nxt (acc @ [page]) w1 = Some (Inr pages, w')"
    "length (sent w') = length (sent w1) + n + 1"
    "sorted_wrt (<) (map open_time (concat pages))" by blast
  then show ?case using fuel fr r full ne s1 unfolding nxt_def by auto
qed

lemma fetch_loop_not_earlier:
  "paged_run good n E self cur w \<Longrightarrow> fetch_loop n E self cur acc w = None"
proof (induction n arbitrary: cur acc w)
  case 0
  then show ?case by simp
next
  case (Suc n)
  then show ?case by (auto split: prod.splits sum.splits)
qed

text \<open>
  C3, with the conditions the code needs. Let the conversion \<^verbatim>\<open>int(ts.timestamp() * 1000)\<close>
  fall at most one millisecond short of the instant it converts. Let the service, asked
  with the cursors the loop computes, serve \<open>n\<close> full pages and then a page that is empty
  or shorter than 1000 rows, each page holding at most 1000 rows in increasing \<open>open_time\<close>
  order that start at or after the cursor requested, and every candle closing after it
  opens. Then the loop has not ended after \<open>n\<close> requests, ends at request \<open>n + 1\<close> (the
  first short page) whatever fuel is left, and the concatenation of the pages is strictly
  increasing in \<open>open_time\<close>, hence free of duplicates.
\<close>

theorem ohlcv_pagination:
  assumes "\<And>t. t - 1 \<le> epoch_ms E t"
    and "paged_run sound_page n E self cur w"
  shows "fetch_loop n E self cur [] w = None
     \<and> (\<forall>fuel>n. \<exists>pages w'. fetch_loop fuel E self cur [] w = Some (Inr pages, w')
            \<and> length (sent w') = length (sent w) + n + 1
            \<and> sorted_wrt (<) (map open_time (concat pages))
            \<and> distinct (map open_time (concat pages)))"
proof (intro conjI allI impI)
  show "fetch_loop n E self cur [] w = None" using assms(2) by (rule fetch_loop_not_earlier)
next
  fix fuel assume "n < fuel"
  from fetch_loop_run[OF assms(1) assms(2) this, of "[]"] obtain pages w' where
    r: "fetch_loop fuel E self cur [] w = Some (Inr pages, w')"
      "length (sent w') = length (sent w) + n + 1"
      "sorted_wrt (<) (map open_time (concat pages))" by auto
  have "distinct (map open_time (concat pages))"
    using r(3) by (simp add: strict_sorted_iff)
  then show "\<exists>pages w'. fetch_loop fuel E self cur [] w = Some (Inr pages, w')
            \<and> length (sent w') = length (sent w) + n + 1
            \<and> sorted_wrt (<) (map open_time (concat pages))
            \<and> distinct (map open_time (concat pages))" using r by blast
qed


lemma length_candles_from [simp]: "length (candles_from t n) = n"
  by (simp add: candles_from_def)

lemma open_times_candles_from:
  "map open_time (candles_from t n) = map (\<lambda>i. t + hours 4 * int i) [0..<n]"
  by (simp add: candles_from_def comp_def)

lemma sorted_candles_from: "sorted_wrt (<) (map open_time (candles_from t n))"
  unfolding open_times_candles_from
  by (simp add: sorted_wrt_map hours_def sorted_wrt_mono_rel[OF _ sorted_wrt_upt])

lemma in_candles_from:
  "k \<in> set (candles_from t n) \<Longrightarrow> t \<le> open_time k \<and> open_time k < close_time k"
  by (auto simp: candles_from_def hours_def)

lemma last_candles_from: "last (candles_from t (Suc n)) = candle (t + hours 4 * int n)"
  by (simp add: candles_from_def)

lemma sound_candles_from: "cur \<le> t \<Longrightarrow> n \<le> 1000 \<Longrightarrow> sound_page cur (candles_from t n)"
  using in_candles_from[of _ t n]
  by (fastforce simp: sound_page_def page_ok_def closes_after_open_def sorted_candles_from)

lemma long_fetch:
  "fst (fetch_historical_ohlcv long_binance ex_ohlcv 1000 (Some cur) w) =
     (if cur = 0 then Inr []
      else if cur \<le> hours 4 then Inr (candles_from (hours 4) 1000)
      else if cur \<le> hours 4004 then Inr [candle (hours 4004)] else Inr [])"
  by (simp add: fetch_historical_ohlcv_result long_binance_def offline_def long_klines_def
      start_of_kline_request)

lemma long_epoch_ms: "epoch_ms long_binance t = t"
  by (simp add: long_binance_def offline_def)

lemma long_run: "paged_run sound_page 1 long_binance ex_ohlcv 1 ex_fresh_world"
proof -
  obtain w1 where f1: "fetch_historical_ohlcv long_binance ex_ohlcv 1000 (Some 1) ex_fresh_world
      = (Inr (candles_from (hours 4) 1000), w1)"
    using long_fetch[of 1 ex_fresh_world]
    by (cases "fetch_historical_ohlcv long_binance ex_ohlcv 1000 (Some 1) ex_fresh_world")
       (simp add: hours_def)
  have l: "epoch_ms long_binance (close_time (last (candles_from (hours 4) 1000))) + 1
      = hours 4004"
    using last_candles_from[of "hours 4" 999] by (simp add: hours_def long_epoch_ms)
  obtain w2 where f2: "fetch_historical_ohlcv long_binance ex_ohlcv 1000 (Some (hours 4004)) w1
      = (Inr [candle (hours 4004)], w2)"
    using long_fetch[of "hours 4004" w1]
    by (cases "fetch_historical_ohlcv long_binance ex_ohlcv 1000 (Some (hours 4004)) w1")
       (simp add: hours_def)
  have g1: "sound_page 1 (candles_from (hours 4) 1000)"
    by (rule sound_candles_from) (simp_all add: hours_def)
  have g2: "sound_page (hours 4004) [candle (hours 4004)]"
    by (simp add: sound_page_def page_ok_def closes_after_open_def hours_def)
  show ?thesis using f1 f2 g1 g2 l by (simp add: numeral_eq_Suc)
qed

theorem ohlcv_pagination_witness:
  "(\<forall>t. t - 1 \<le> epoch_ms long_binance t)
   \<and> paged_run sound_page 1 long_binance ex_ohlcv 1 ex_fresh_world
   \<and> fetch_loop 1 long_binance ex_ohlcv 1 [] ex_fresh_world = None
   \<and> (\<exists>pages w'. fetch_loop 2 long_binance ex_ohlcv 1 [] ex_fresh_world = Some (Inr pages, w')
         \<and> length (sent w') = 2
         \<and> sorted_wrt (<) (map open_time (concat pages))
         \<and> distinct (map open_time (concat pages)))"
proof -
  have e: "t - 1 \<le> epoch_ms long_binance t" for t by (simp add: long_epoch_ms)
  note r = ohlcv_pagination[of long_binance, OF e long_run]
  have a: "fetch_loop 1 long_binance ex_ohlcv 1 [] ex_fresh_world = None" using r by blast
  have c: "\<forall>fuel>1. \<exists>pages w'.
          fetch_loop fuel long_binance ex_ohlcv 1 [] ex_fresh_world = Some (Inr pages, w')
          \<and> length (sent w') = length (sent ex_fresh_world) + 1 + 1
          \<and> sorted_wrt (<) (map open_time (concat pages))
          \<and> distinct (map open_time (concat pages))" using r by blast
  have "(1::nat) < 2" by simp
  with c have "\<exists>pages w'.
          fetch_loop 2 long_binance ex_ohlcv 1 [] ex_fresh_world = Some (Inr pages, w')
          \<and> length (sent w') = length (sent ex_fresh_world) + 1 + 1
          \<and> sorted_wrt (<) (map open_time (concat pages))
          \<and> distinct (map open_time (concat pages))" by blast
  moreover have "length (sent ex_fresh_world) + 1 + 1 = 2" by (simp add: ex_fresh_world_def)
  ultimately have b: "\<exists>pages w'.
          fetch_loop 2 long_binance ex_ohlcv 1 [] ex_fresh_world = Some (Inr pages, w')
          \<and> length (sent w') = 2
          \<and> sorted_wrt (<) (map open_time (concat pages))
          \<and> distinct (map open_time (concat pages))" by (simp only:)
  show ?thesis using e long_run a b by blast
qed

lemma open_time_instant_candle [simp]: "open_time (instant_candle t) = t"
  by (simp add: instant_candle_def)

lemma close_time_instant_candle [simp]: "close_time (instant_candle t) = t"
  by (simp add: instant_candle_def)

lemma open_times_instants: "map open_time instants = map (\<lambda>i. 2 + int i) [0..<1000]"
  by (simp add: instants_def comp_def)

lemma sorted_instants: "sorted_wrt (<) (map open_time instants)"
  unfolding open_times_instants
  by (simp add: sorted_wrt_map sorted_wrt_mono_rel[OF _ sorted_wrt_upt])

lemma instant_fetch:
  "fst (fetch_historical_ohlcv instant_binance ex_ohlcv 1000 (Some cur) w) =
     Inr (take 1000 (filter (\<lambda>k. cur \<le> open_time k) instants))"
proof -
  have k: "binance_klines instant_binance = instant_klines"
    by (simp add: instant_binance_def)
  have c: "(case start_of (kline_request ex_ohlcv 1000 (Some cur)) of None \<Rightarrow> 0 | Some s \<Rightarrow> s) = cur"
    by (simp add: start_of_kline_request)
  have l: "limit_of (kline_request ex_ohlcv 1000 (Some cur)) = 1000"
    by (simp add: limit_of_kline_request)
  show ?thesis
    unfolding fetch_historical_ohlcv_result k instant_klines_def Let_def c l by simp
qed

lemma sorted_instants_rel: "sorted_wrt (\<lambda>a b. open_time a < open_time b) instants"
  using sorted_instants unfolding sorted_wrt_map .

lemma instant_page_ok: "page_ok cur (take 1000 (filter (\<lambda>k. cur \<le> open_time k) instants))"
proof -
  let ?page = "take 1000 (filter (\<lambda>k. cur \<le> open_time k) instants)"
  have "sorted_wrt (\<lambda>a b. open_time a < open_time b) (filter (\<lambda>k. cur \<le> open_time k) instants)"
    using sorted_instants_rel by (rule sorted_wrt_filter)
  then have "sorted_wrt (\<lambda>a b. open_time a < open_time b) ?page"
    by (rule sorted_wrt_take)
  then have s: "sorted_wrt (<) (map open_time ?page)" unfolding sorted_wrt_map .
  have b: "cur \<le> open_time k" if "k \<in> set ?page" for k
  proof -
    from that have "k \<in> set (filter (\<lambda>k. cur \<le> open_time k) instants)" by (rule in_set_takeD)
    then show ?thesis by simp
  qed
  have l: "length ?page \<le> 1000" by simp
  show ?thesis unfolding page_ok_def using s b l by blast
qed

lemma instant_pages_ok: "kline_pages_ok instant_binance ex_ohlcv"
  unfolding kline_pages_ok_def instant_fetch using instant_page_ok by blast

lemma instants_snoc:
  "instants = map (\<lambda>i. instant_candle (2 + int i)) [0..<999] @ [instant_candle 1001]"
  unfolding instants_def using upt_Suc_append[of 0 999] by simp

lemma instants_from_1: "take 1000 (filter (\<lambda>k. 1 \<le> open_time k) instants) = instants"
proof -
  have "filter (\<lambda>k. 1 \<le> open_time k) instants = instants"
    by (rule filter_True) (auto simp: instants_def)
  moreover have "length instants = 1000" by (simp add: instants_def)
  ultimately show ?thesis by simp
qed

lemma instants_from_1001:
  "take 1000 (filter (\<lambda>k. 1001 \<le> open_time k) instants) = [instant_candle 1001]"
proof -
  have "filter (\<lambda>k. 1001 \<le> open_time k) (map (\<lambda>i. instant_candle (2 + int i)) [0..<999]) = []"
    by (auto simp: filter_empty_conv)
  then show ?thesis by (subst instants_snoc) simp
qed

text \<open>
  Without those conditions the claim fails. The service \<open>instant_klines\<close> serves only
  pages of at most 1000 rows, increasing in \<open>open_time\<close>, from the cursor on, and none of
  its candles closes before it opens. Asked from cursor 1 it serves a full page whose last
  candle opens and closes at 1001 ms; \<^verbatim>\<open>int(ts.timestamp() * 1000)\<close> of that close time is
  1000, the loop asks again from cursor 1001, and the candle that opens at 1001 is stored
  twice.
\<close>

theorem ohlcv_pagination_counterexample:
  "kline_pages_ok instant_binance ex_ohlcv
   \<and> map close_time instants = map open_time instants
   \<and> paged_run page_ok 1 instant_binance ex_ohlcv 1 ex_fresh_world
   \<and> map_option fst (fetch_loop 2 instant_binance ex_ohlcv 1 [] ex_fresh_world)
       = Some (Inr [instants, [instant_candle 1001]])
   \<and> \<not> distinct (map open_time (concat [instants, [instant_candle 1001]]))"
proof -
  obtain w1 where f1: "fetch_historical_ohlcv instant_binance ex_ohlcv 1000 (Some 1) ex_fresh_world
      = (Inr instants, w1)"
    using instant_fetch[of 1 ex_fresh_world]
    by (cases "fetch_historical_ohlcv instant_binance ex_ohlcv 1000 (Some 1) ex_fresh_world")
       (simp add: instants_from_1)
  have len: "length instants = 1000" by (simp add: instants_def)
  have ne: "instants \<noteq> []" using len by auto
  have "last instants = instant_candle 1001" by (subst instants_snoc) (rule last_snoc)
  then have l: "epoch_ms instant_binance (close_time (last instants)) + 1 = 1001"
    by (simp add: instant_binance_def float_epoch_ms_def)
  obtain w2 where f2: "fetch_historical_ohlcv instant_binance ex_ohlcv 1000 (Some 1001) w1
      = (Inr [instant_candle 1001], w2)"
    using instant_fetch[of 1001 w1]
    by (cases "fetch_historical_ohlcv instant_binance ex_ohlcv 1000 (Some 1001) w1")
       (simp add: instants_from_1001)
  have p1: "page_ok 1 instants"
    using instant_page_ok[of 1] by (simp only: instants_from_1)
  have p2: "page_ok 1001 [instant_candle 1001]" by (simp add: page_ok_def)
  have run: "paged_run page_ok 1 instant_binance ex_ohlcv 1 ex_fresh_world"
    using f1 f2 p1 p2 l len by (simp add: numeral_eq_Suc)
  have loop: "map_option fst (fetch_loop 2 instant_binance ex_ohlcv 1 [] ex_fresh_world)
       = Some (Inr [instants, [instant_candle 1001]])"
    using f1 f2 l len ne by (simp add: numeral_2_eq_2)
  have cl: "map close_time instants = map open_time instants"
    by (simp add: instants_def)
  have "instant_candle 1001 \<in> set instants" by (subst instants_snoc) simp
  then have "open_time (instant_candle 1001) \<in> open_time ` set instants" by (rule imageI)
  then have "\<not> distinct (map open_time (concat [instants, [instant_candle 1001]]))" by simp
  then show ?thesis using instant_pages_ok cl run loop by blast
qed

section \<open>Fear and greed over three buckets\<close>

lemma date_range_three:
  assumes "hours 8 \<le> e - t" and "e - t < hours 12"
  shows "date_range t e = [t, t + hours 4, t + hours 8]"
proof -
  have "(e - t) div hours 4 = 2" using assms by (simp add: hours_def) 
  moreover have "\<not> e < t" using assms by (simp add: hours_def)
  ultimately show ?thesis
    by (simp add: date_range_def upt_rec hours_def)
qed

lemma length_date_range:
  "length (date_range t e) = (if e < t then 0 else Suc (nat ((e - t) div hours 4)))"
  by (simp add: date_range_def)

lemma three_points:
  "\<not> e < t \<Longrightarrow> Suc (nat ((e - t) div hours 4)) = 3 \<longleftrightarrow> hours 8 \<le> e - t \<and> e - t < hours 12"
  by (auto simp: hours_def)

text \<open>
  C9, with the boundary stated. Let the ticker answer with the index value \<open>v\<close>. When
  \<open>8h \<le> end - start < 12h\<close>, so that the grid \<open>start, start + 4h, ...\<close> has exactly three
  points up to \<open>end\<close>, the fetch returns exactly three rows, at \<open>start\<close>, \<open>start + 4h\<close> and
  \<open>start + 8h\<close>, each holding \<open>v\<close>. It returns exactly three rows for no other range, and
  whatever the range, every row it returns holds \<open>v\<close>.
\<close>

theorem fear_greed_three_buckets:
  assumes "alternative_me E (sent w)
             \<lparr>endpoint = ''https://api.alternative.me/v2/ticker/Bitcoin/'', params = []\<rparr> = Body v"
    and "is_time start_date"
  shows "(hours 8 \<le> end_date - time_of start_date \<and> end_date - time_of start_date < hours 12 \<longrightarrow>
           fst (fetch_fear_and_greed_index E self start_date end_date w) =
             \<lparr>columns = [''timestamp'', ''fear_greed_index''],
              rows = [[Stamp (time_of start_date), Val v],
                      [Stamp (time_of start_date + hours 4), Val v],
                      [Stamp (time_of start_date + hours 8), Val v]]\<rparr>)
     \<and> (length (rows (fst (fetch_fear_and_greed_index E self start_date end_date w))) = 3
          \<longleftrightarrow> hours 8 \<le> end_date - time_of start_date
              \<and> end_date - time_of start_date < hours 12)
     \<and> (\<forall>row \<in> set (rows (fst (fetch_fear_and_greed_index E self start_date end_date w))).
           drop 1 row = [Val v])"
proof -
  have d: "date_range_from start_date end_date = Inr (date_range (time_of start_date) end_date)"
    using assms(2) by (cases start_date) simp_all
  have f: "fst (fetch_fear_and_greed_index E self start_date end_date w) =
       \<lparr>columns = [''timestamp'', ''fear_greed_index''],
        rows = map (\<lambda>d. [Stamp d, Val v]) (date_range (time_of start_date) end_date)\<rparr>"
    using assms(1) d by (simp add: fetch_fear_and_greed_index_def http_get_def log_def Let_def)
  have a: "hours 8 \<le> end_date - time_of start_date \<and> end_date - time_of start_date < hours 12 \<longrightarrow>
           fst (fetch_fear_and_greed_index E self start_date end_date w) =
             \<lparr>columns = [''timestamp'', ''fear_greed_index''],
              rows = [[Stamp (time_of start_date), Val v],
                      [Stamp (time_of start_date + hours 4), Val v],
                      [Stamp (time_of start_date + hours 8), Val v]]\<rparr>"
    unfolding f using date_range_three[where t = "time_of start_date" and e = end_date] by simp
  have b: "length (rows (fst (fetch_fear_and_greed_index E self start_date end_date w))) = 3
          \<longleftrightarrow> hours 8 \<le> end_date - time_of start_date
              \<and> end_date - time_of start_date < hours 12"
  proof (cases "end_date < time_of start_date")
    case True
    then show ?thesis unfolding f by (simp add: length_date_range hours_def)
  next
    case False
    then show ?thesis unfolding f using three_points[OF False] by (simp add: length_date_range)
  qed
  have c: "\<forall>row \<in> set (rows (fst (fetch_fear_and_greed_index E self start_date end_date w))).
           drop 1 row = [Val v]"
    unfolding f by simp
  show ?thesis using a b c by (intro conjI)
qed

theorem fear_greed_three_buckets_witness:
  "fst (fetch_fear_and_greed_index calm ex_self (Stamp 0) (hours 8) ex_fresh_world) =
     \<lparr>columns = [''timestamp'', ''fear_greed_index''],
      rows = [[Stamp 0, Val ''52''], [Stamp (hours 4), Val ''52''], [Stamp (hours 8), Val ''52'']]\<rparr>
   \<and> length (rows (fst (fetch_fear_and_greed_index calm ex_self (Stamp 0) (hours 8) ex_fresh_world))) = 3"
proof -
  have a: "alternative_me calm (sent ex_fresh_world)
             \<lparr>endpoint = ''https://api.alternative.me/v2/ticker/Bitcoin/'', params = []\<rparr> = Body ''52''"
    by (simp add: calm_def offline_def)
  have b: "is_time (Stamp 0)" by simp
  have c: "hours 8 \<le> hours 8 - time_of (Stamp 0) \<and> hours 8 - time_of (Stamp 0) < hours 12"
    by (simp add: hours_def)
  show ?thesis
    using fear_greed_three_buckets[OF a b, of "hours 8" ex_self] c by simp
qed

text \<open>
  A range that is three bucket widths long, from 0h to 12h, holds four grid points: the
  fetch returns four rows.
\<close>

theorem fear_greed_twelve_hours_counterexample:
  "fst (fetch_fear_and_greed_index calm ex_self (Stamp 0) (hours 12) ex_fresh_world) =
     \<lparr>columns = [''timestamp'', ''fear_greed_index''],
      rows = [[Stamp 0, Val ''52''], [Stamp (hours 4), Val ''52''], [Stamp (hours 8), Val ''52''],
              [Stamp (hours 12), Val ''52'']]\<rparr>"
proof -
  have "date_range 0 (hours 12) = [0, hours 4, hours 8, hours 12]"
    by (simp add: date_range_def hours_def upt_rec)
  then show ?thesis
    by (simp add: fetch_fear_and_greed_index_def http_get_def log_def Let_def calm_def
        offline_def)
qed

section \<open>More on what each operation leaves unchanged\<close>

lemma check_local_data_frame:
  "check_local_data self data_type w = (r, w1) \<Longrightarrow> same_store w w1 \<and> sent w1 = sent w"
  by (auto simp: check_local_data_def Let_def split: option.splits sum.splits if_splits)

lemma check_local_data_raises_unchanged:
  "check_local_data self data_type w = (Inl e, w1) \<Longrightarrow> w1 = w"
  by (auto simp: check_local_data_def Let_def split: option.splits sum.splits if_splits)

lemma store_fetched_empty [simp]:
  "store_fetched self data_type failed empty_df w = (Inr empty_df, w)"
  by (simp add: store_fetched_def df_empty_def empty_df_def)

section \<open>Network errors\<close>


lemma logged_log [simp]: "logged (log lv msg w) = logged w @ [(lv, msg)]"
  by (simp add: log_def)

lemma last_logs_2:
  "last_logs 2 (log a m (log b n w)) = [(b, n), (a, m)]"
  by (simp add: last_logs_def)







lemma snapshot_down:
  assumes "\<forall>r. binance_depth E (sent w) r = RequestFailed"
  shows "\<exists>w1. fetch_order_book_snapshot E self limit ts w =
           (Inl RequestException, log ERROR ''HTTP error during order book fetch: {req_err}'' w1)"
  using assms by (simp add: fetch_order_book_snapshot_def http_get_def Let_def) blast





lemma stale_check:
  assumes "fst (check_local_data self data_type w) = Inr (False, df)"
  obtains w1 where "check_local_data self data_type w = (Inr (False, df), w1)"
    and "same_store w w1" and "sent w1 = sent w"
proof -
  obtain r w1 where c: "check_local_data self data_type w = (r, w1)"
    by (cases "check_local_data self data_type w") auto
  then have "r = Inr (False, df)" using assms by simp
  then show ?thesis using that c check_local_data_frame[OF c] by simp
qed





lemma OrderBook_store_down:
  assumes "fst (check_local_data self ''orderbook'' w) = Inr (False, df)"
    and "\<not> df_empty ohlcv" and "column ohlcv ''open_time'' = Inr (Stamp t # rest)"
    and "\<forall>r. binance_depth E (sent w) r = RequestFailed"
  shows "fst (OrderBook_fetch_and_store E self ohlcv w) = Inl RequestException
     \<and> last_logs 2 (snd (OrderBook_fetch_and_store E self ohlcv w))
         = [(ERROR, ''HTTP error during order book fetch: {req_err}''),
            (EXCEPTION, ''Error fetching and storing order book data: {e}'')]"
proof -
  obtain w1 where c: "check_local_data self ''orderbook'' w = (Inr (False, df), w1)"
    and s: "sent w1 = sent w" using assms(1) by (rule stale_check)
  have "\<forall>r. binance_depth E (sent w1) r = RequestFailed" using assms(4) s by simp
  from snapshot_down[OF this, of self 100 "Some (epoch_ms E t)"] obtain w2 where
    f: "fetch_order_book_snapshot E self 100 (Some (epoch_ms E t)) w1 =
          (Inl RequestException, log ERROR ''HTTP error during order book fetch: {req_err}'' w2)"
    by blast
  have l: "fetch_snapshots E self (Stamp t # rest) [] w1 =
          (Inl RequestException, log ERROR ''HTTP error during order book fetch: {req_err}'' w2)"
    using f by simp
  have "OrderBook_fetch_and_store E self ohlcv w =
          (Inl RequestException,
           log EXCEPTION ''Error fetching and storing order book data: {e}''
             (log ERROR ''HTTP error during order book fetch: {req_err}'' w2))"
    using c assms(2,3) l by (simp add: OrderBook_fetch_and_store_def Let_def)
  then show ?thesis by (simp add: last_logs_2)
qed














lemma one_candle_frame:
  "\<not> df_empty (ohlcv_frame [candle t])"
  "column (ohlcv_frame [candle t]) ''open_time'' = Inr (Stamp t # [])"
  by (simp_all add: df_empty_def ohlcv_frame_def column_def kline_row_def cell_at_def)





section \<open>A corrupt cache file\<close>









section \<open>The run of all fetchers\<close>

lemma to_csv_frame:
  "to_csv df path w = (r, w') \<Longrightarrow>
     readonly w' = readonly w \<and> clock w' = clock w \<and> sent w' = sent w
     \<and> (\<forall>p. p \<noteq> path \<longrightarrow> files w' p = files w p)
     \<and> (\<forall>e. r = Inl e \<longrightarrow> w' = w)"
  by (auto simp: to_csv_def split: if_splits)

lemma save_data_frame:
  "save_data self df data_type w = (r, w') \<Longrightarrow>
     readonly w' = readonly w \<and> clock w' = clock w \<and> sent w' = sent w
     \<and> (\<forall>p. p \<noteq> cache_path self data_type \<longrightarrow> files w' p = files w p)
     \<and> (\<forall>e. r = Inl e \<longrightarrow> files w' = files w)"
  by (auto simp: save_data_def log_def split: if_splits prod.splits sum.splits
      dest!: to_csv_frame)

lemma snapshot_frame:
  "fetch_order_book_snapshot E self limit ts w = (r, w') \<Longrightarrow> same_store w w'"
  by (auto simp: fetch_order_book_snapshot_def http_get_def same_store_def log_def Let_def
      split: response.splits)

lemma fetch_snapshots_frame:
  "fetch_snapshots E self cs acc w = (r, w') \<Longrightarrow> same_store w w'"
proof (induction cs arbitrary: acc w)
  case Nil
  then show ?case by simp
next
  case (Cons c cs)
  show ?case
  proof (cases "timestamp_ms E c")
    case (Inl e)
    then show ?thesis using Cons.prems by simp
  next
    case (Inr t)
    obtain x w1 where f: "fetch_order_book_snapshot E self 100 (Some t) w = (x, w1)"
      by (cases "fetch_order_book_snapshot E self 100 (Some t) w") auto
    have s: "same_store w w1" using snapshot_frame[OF f] .
    show ?thesis
    proof (cases x)
      case (Inl e)
      then show ?thesis using Cons.prems Inr f s by simp
    next
      case (Inr ob)
      then show ?thesis using Cons.prems \<open>timestamp_ms E c = Inr t\<close> f s Cons.IH
        by (auto intro: same_store_trans)
    qed
  qed
qed

lemma OrderBook_frame:
  assumes "OrderBook_fetch_and_store E self ohlcv w = (r, w')"
  shows "readonly w' = readonly w \<and> clock w' = clock w
     \<and> (\<forall>p. p \<noteq> cache_path self ''orderbook'' \<longrightarrow> files w' p = files w p)
     \<and> (\<forall>e. r = Inl e \<longrightarrow> files w' = files w)"
proof -
  obtain c w1 where c: "check_local_data self ''orderbook'' w = (c, w1)"
    by (cases "check_local_data self ''orderbook'' w") auto
  have s1: "same_store w w1" using check_local_data_frame[OF c] by simp
  show ?thesis
  proof (cases c)
    case (Inl e')
    then show ?thesis using assms c s1
      by (auto simp: OrderBook_fetch_and_store_def same_store_def)
  next
    case (Inr p)
    obtain up df where p: "p = (up, df)" by (cases p) auto
    show ?thesis
    proof (cases "up \<or> df_empty ohlcv")
      case True
      then show ?thesis using assms c Inr p s1
        by (auto simp: OrderBook_fetch_and_store_def Let_def same_store_def log_def
            split: if_splits)
    next
      case False
      show ?thesis
      proof (cases "column ohlcv ''open_time''")
        case (Inl e')
        then show ?thesis using assms c Inr p False s1
          by (auto simp: OrderBook_fetch_and_store_def Let_def log_def same_store_def)
      next
        case (Inr ts)
        obtain x w2 where f: "fetch_snapshots E self ts [] w1 = (x, w2)"
          by (cases "fetch_snapshots E self ts [] w1") auto
        have s2: "same_store w w2" using same_store_trans[OF s1 fetch_snapshots_frame[OF f]] .
        show ?thesis
        proof (cases x)
          case (Inl e')
          then show ?thesis using assms c \<open>c = Inr p\<close> p False Inr f s2
            by (auto simp: OrderBook_fetch_and_store_def Let_def log_def same_store_def)
        next
          case (Inr obs)
          obtain y w3 where sv: "save_data self (concat_frames obs) ''orderbook'' w2 = (y, w3)"
            by (cases "save_data self (concat_frames obs) ''orderbook'' w2") auto
          have "readonly w3 = readonly w2 \<and> clock w3 = clock w2
              \<and> (\<forall>p. p \<noteq> cache_path self ''orderbook'' \<longrightarrow> files w3 p = files w2 p)
              \<and> (\<forall>e. y = Inl e \<longrightarrow> files w3 = files w2)"
            using save_data_frame[OF sv] by blast
          then show ?thesis
            using assms c \<open>c = Inr p\<close> p False \<open>column ohlcv ''open_time'' = Inr ts\<close> f Inr sv s2
            by (auto simp: OrderBook_fetch_and_store_def Let_def log_def same_store_def
                split: if_splits sum.splits)
        qed
      qed
    qed
  qed
qed

lemma OHLCV_frame:
  assumes "OHLCV_fetch_and_store fuel E self w = Some (r, w')"
  shows "readonly w' = readonly w \<and> clock w' = clock w
     \<and> (\<forall>p. p \<noteq> cache_path self ''ohlcv'' \<longrightarrow> files w' p = files w p)"
proof -
  obtain c w1 where c: "check_local_data self ''ohlcv'' w = (c, w1)"
    by (cases "check_local_data self ''ohlcv'' w") auto
  have s1: "same_store w w1" using check_local_data_frame[OF c] by simp
  show ?thesis
  proof (cases c)
    case (Inl e)
    then show ?thesis using assms c s1 by (auto simp: OHLCV_fetch_and_store_def same_store_def)
  next
    case (Inr q)
    obtain up df where q: "q = (up, df)" by (cases q) auto
    show ?thesis
    proof (cases up)
      case True
      then show ?thesis using assms c Inr q s1
        by (auto simp: OHLCV_fetch_and_store_def log_def same_store_def)
    next
      case False
      obtain l w2 where l: "get_symbol_listing_date E self w1 = (l, w2)"
        by (cases "get_symbol_listing_date E self w1") auto
      have s2: "same_store w w2"
        using same_store_trans[OF s1 get_symbol_listing_date_frame[OF l]] .
      show ?thesis
      proof (cases l)
        case (Inl e)
        then show ?thesis using assms c Inr q False l s2
          by (auto simp: OHLCV_fetch_and_store_def log_def Let_def same_store_def)
      next
        case (Inr t)
        from assms c \<open>c = Inr q\<close> q False l Inr
        obtain x w3 where f: "fetch_loop fuel E self t [] w2 = Some (x, w3)"
          by (cases "fetch_loop fuel E self t [] w2") (auto simp: OHLCV_fetch_and_store_def Let_def)
        have s3: "same_store w w3" using same_store_trans[OF s2 fetch_loop_frame[OF f]] .
        show ?thesis
        proof (cases x)
          case (Inl e)
          then show ?thesis using assms c \<open>c = Inr q\<close> q False l \<open>l = Inr t\<close> f s3
            by (auto simp: OHLCV_fetch_and_store_def log_def Let_def same_store_def)
        next
          case (Inr pages)
          obtain y w4 where sv: "save_data self (ohlcv_frame (concat pages)) ''ohlcv'' w3 = (y, w4)"
            by (cases "save_data self (ohlcv_frame (concat pages)) ''ohlcv'' w3") auto
          have "readonly w4 = readonly w3 \<and> clock w4 = clock w3
              \<and> (\<forall>p. p \<noteq> cache_path self ''ohlcv'' \<longrightarrow> files w4 p = files w3 p)"
            using save_data_frame[OF sv] by blast
          then show ?thesis using assms c \<open>c = Inr q\<close> q False l \<open>l = Inr t\<close> f Inr sv s3
            by (auto simp: OHLCV_fetch_and_store_def log_def Let_def same_store_def
                split: if_splits sum.splits)
        qed
      qed
    qed
  qed
qed

text \<open>
  C4, as the code has it. After a non-empty OHLCV fetch the five auxiliary fetchers run in
  the order order book, technical, sentiment, fear and greed, fundamentals, inside one
  \<^verbatim>\<open>try\<close>. An exception raised by one of them ends the run: the world is the one that
  fetcher left, with the handler's log line added, the exception is raised to the caller,
  and no later fetcher has run; when it is the order book fetcher that raises, the cache
  holds the files it held after the OHLCV fetch. Only when all five return does the run
  complete.
\<close>

theorem auxiliary_failure_ends_run:
  assumes "OHLCV_fetch_and_store fuel E (ohlcv_fetcher self) w = Some (Inr ohlcv, w1)"
    and "\<not> df_empty ohlcv" and "column ohlcv ''open_time'' = Inr ts"
  shows
    "(OrderBook_fetch_and_store E (orderbook_fetcher self) ohlcv w1 = (Inl e, w2) \<longrightarrow>
        fetch_and_store_all fuel E self w
          = Some (Inl e, log EXCEPTION ''Error in fetch_and_store_all: {e}'' w2)
        \<and> files w2 = files w1)
     \<and> (OrderBook_fetch_and_store E (orderbook_fetcher self) ohlcv w1 = (Inr ob, w2)
        \<and> Technical_fetch_and_store E (technical_fetcher self) ohlcv w2 = (Inl e, w3) \<longrightarrow>
        fetch_and_store_all fuel E self w
          = Some (Inl e, log EXCEPTION ''Error in fetch_and_store_all: {e}'' w3))
     \<and> (OrderBook_fetch_and_store E (orderbook_fetcher self) ohlcv w1 = (Inr ob, w2)
        \<and> Technical_fetch_and_store E (technical_fetcher self) ohlcv w2 = (Inr tc, w3)
        \<and> Sentiment_fetch_and_store E (sentiment_fetcher self) (series_min ts) (clock w1) w3
            = (Inl e, w4) \<longrightarrow>
        fetch_and_store_all fuel E self w
          = Some (Inl e, log EXCEPTION ''Error in fetch_and_store_all: {e}'' w4))
     \<and> (OrderBook_fetch_and_store E (orderbook_fetcher self) ohlcv w1 = (Inr ob, w2)
        \<and> Technical_fetch_and_store E (technical_fetcher self) ohlcv w2 = (Inr tc, w3)
        \<and> Sentiment_fetch_and_store E (sentiment_fetcher self) (series_min ts) (clock w1) w3
            = (Inr st, w4)
        \<and> FearGreed_fetch_and_store E (fear_greed_fetcher self) (series_min ts) (clock w1) w4
            = (Inl e, w5) \<longrightarrow>
        fetch_and_store_all fuel E self w
          = Some (Inl e, log EXCEPTION ''Error in fetch_and_store_all: {e}'' w5))
     \<and> (OrderBook_fetch_and_store E (orderbook_fetcher self) ohlcv w1 = (Inr ob, w2)
        \<and> Technical_fetch_and_store E (technical_fetcher self) ohlcv w2 = (Inr tc, w3)
        \<and> Sentiment_fetch_and_store E (sentiment_fetcher self) (series_min ts) (clock w1) w3
            = (Inr st, w4)
        \<and> FearGreed_fetch_and_store E (fear_greed_fetcher self) (series_min ts) (clock w1) w4
            = (Inr fg, w5)
        \<and> Fundamental_fetch_and_store E (fundamental_fetcher self) (series_min ts) (clock w1) w5
            = (Inl e, w6) \<longrightarrow>
        fetch_and_store_all fuel E self w
          = Some (Inl e, log EXCEPTION ''Error in fetch_and_store_all: {e}'' w6))
     \<and> (OrderBook_fetch_and_store E (orderbook_fetcher self) ohlcv w1 = (Inr ob, w2)
        \<and> Technical_fetch_and_store E (technical_fetcher self) ohlcv w2 = (Inr tc, w3)
        \<and> Sentiment_fetch_and_store E (sentiment_fetcher self) (series_min ts) (clock w1) w3
            = (Inr st, w4)
        \<and> FearGreed_fetch_and_store E (fear_greed_fetcher self) (series_min ts) (clock w1) w4
            = (Inr fg, w5)
        \<and> Fundamental_fetch_and_store E (fundamental_fetcher self) (series_min ts) (clock w1) w5
            = (Inr fd, w6) \<longrightarrow>
        fetch_and_store_all fuel E self w
          = Some (Inr (), log INFO ''Completed fetching and storing all data for {self.symbol}''
                    w6))"
proof -
  have "OrderBook_fetch_and_store E (orderbook_fetcher self) ohlcv w1 = (Inl e, w2) \<Longrightarrow>
      files w2 = files w1"
    using OrderBook_frame by blast
  then show ?thesis using assms by (simp add: fetch_and_store_all_def Let_def)
qed


lemma ex_paths:
  "cache_path ex_self ''technical'' = ''data/BTCUSDT_4h_technical.csv''"
  "cache_path ex_ohlcv ''ohlcv'' = ''data/BTCUSDT_4h_ohlcv.csv''"
  "cache_path ex_ohlcv ''orderbook'' = ''data/BTCUSDT_4h_orderbook.csv''"
  by (simp_all add: cache_path_def path_join_def ex_self_def ex_ohlcv_def)

lemma ex_after_ohlcv:
  "OHLCV_fetch_and_store 2 ex_binance ex_ohlcv ex_fresh_world
     = Some (Inr (ohlcv_frame [candle (hours 12)]), ex_after_ohlcv)"
  using ex_store_run unfolding ex_after_ohlcv_def
  by (cases "OHLCV_fetch_and_store 2 ex_binance ex_ohlcv ex_fresh_world") auto

lemma ex_after_ohlcv_store:
  "readonly ex_after_ohlcv p = False"
  "p \<noteq> ''data/BTCUSDT_4h_ohlcv.csv'' \<Longrightarrow> files ex_after_ohlcv p = None"
  using OHLCV_frame[OF ex_after_ohlcv] by (simp_all add: ex_paths ex_fresh_world_def)

lemma ex_after_orderbook:
  "OrderBook_fetch_and_store ex_binance ex_ohlcv (ohlcv_frame [candle (hours 12)]) ex_after_ohlcv
     = (Inl RequestException, ex_after_orderbook)"
proof -
  have "fst (check_local_data ex_ohlcv ''orderbook'' ex_after_ohlcv) = Inr (False, empty_df)"
    by (simp add: check_local_data_def ex_paths ex_after_ohlcv_store)
  moreover have "\<forall>r. binance_depth ex_binance (sent ex_after_ohlcv) r = RequestFailed"
    by (simp add: ex_binance_def offline_def)
  ultimately have "fst (OrderBook_fetch_and_store ex_binance ex_ohlcv
        (ohlcv_frame [candle (hours 12)]) ex_after_ohlcv) = Inl RequestException"
    using OrderBook_store_down[where t = "hours 12" and rest = "[]"] one_candle_frame by blast
  then show ?thesis unfolding ex_after_orderbook_def
    by (cases "OrderBook_fetch_and_store ex_binance ex_ohlcv
        (ohlcv_frame [candle (hours 12)]) ex_after_ohlcv") auto
qed

lemma ex_after_orderbook_store:
  "readonly ex_after_orderbook p = False"
  "p \<noteq> ''data/BTCUSDT_4h_ohlcv.csv'' \<Longrightarrow> files ex_after_orderbook p = None"
  using OrderBook_frame[OF ex_after_orderbook] ex_after_ohlcv_store by simp_all

lemma ex_technical_writes:
  "files (snd (Technical_fetch_and_store ex_binance ex_self (ohlcv_frame [candle (hours 12)])
                 ex_after_orderbook)) (cache_path ex_self ''technical'') \<noteq> None"
proof -
  let ?f = "ohlcv_frame [candle (hours 12)]"
  obtain w1 where c: "check_local_data ex_self ''technical'' ex_after_orderbook
      = (Inr (False, empty_df), w1)" and s1: "same_store ex_after_orderbook w1"
    using check_absent[of ex_after_orderbook ex_self "''technical''"]
    by (auto simp: ex_paths ex_after_orderbook_store)
  have ro: "\<not> readonly w1 (cache_path ex_self ''technical'')"
    using s1 ex_after_orderbook_store(1) by (simp add: same_store_def)
  have t: "compute_technical_indicators ex_binance ex_self ?f w1
      = (\<lparr>columns = [''timestamp'', ''sma50'', ''sma200'', ''rsi'', ''macd'', ''macd_signal'',
                      ''upper_band'', ''middle_band'', ''lower_band''],
           rows = [Stamp (hours 12) # replicate 8 NaN]\<rparr>,
         log INFO ''Computed technical indicators for {len(df)} records'' w1)"
    by (simp add: compute_technical_indicators_def df_empty_def ohlcv_frame_def column_def
        kline_row_def cell_at_def ex_binance_def offline_def Let_def)
  show ?thesis using c t ro
    by (simp add: Technical_fetch_and_store_def store_fetched_def df_empty_def save_data_def
        to_csv_def log_def)
qed

theorem auxiliary_failure_ends_run_witness:
  "fetch_and_store_all 2 ex_binance ex_manager ex_fresh_world
     = Some (Inl RequestException,
             log EXCEPTION ''Error in fetch_and_store_all: {e}'' ex_after_orderbook)"
proof -
  have a: "OHLCV_fetch_and_store 2 ex_binance (ohlcv_fetcher ex_manager) ex_fresh_world
      = Some (Inr (ohlcv_frame [candle (hours 12)]), ex_after_ohlcv)"
    using ex_after_ohlcv by (simp add: ex_manager_def)
  have b: "OrderBook_fetch_and_store ex_binance (orderbook_fetcher ex_manager)
        (ohlcv_frame [candle (hours 12)]) ex_after_ohlcv
      = (Inl RequestException, ex_after_orderbook)"
    using ex_after_orderbook by (simp add: ex_manager_def)
  show ?thesis
    using auxiliary_failure_ends_run[OF a one_candle_frame, where e = RequestException
        and ?w2.0 = ex_after_orderbook] b by blast
qed

text \<open>
  On the exchange of the example the depth endpoint is down. The order book fetcher raises,
  the run ends there, and the technical indicators are never computed: their file is not
  there after the run, though the technical fetcher, had it been called on the world the
  order book fetcher left, would have written it.
\<close>

theorem order_book_failure_counterexample:
  "fetch_and_store_all 2 ex_binance ex_manager ex_fresh_world
     = Some (Inl RequestException,
             log EXCEPTION ''Error in fetch_and_store_all: {e}'' ex_after_orderbook)
   \<and> files (log EXCEPTION ''Error in fetch_and_store_all: {e}'' ex_after_orderbook)
        (cache_path ex_self ''technical'') = None
   \<and> files (snd (Technical_fetch_and_store ex_binance ex_self (ohlcv_frame [candle (hours 12)])
                 ex_after_orderbook)) (cache_path ex_self ''technical'') \<noteq> None"
proof (intro conjI)
  show "fetch_and_store_all 2 ex_binance ex_manager ex_fresh_world
     = Some (Inl RequestException,
             log EXCEPTION ''Error in fetch_and_store_all: {e}'' ex_after_orderbook)"
    using ex_after_ohlcv ex_after_orderbook one_candle_frame[of "hours 12"]
    by (simp add: fetch_and_store_all_def ex_manager_def Let_def)
  show "files (log EXCEPTION ''Error in fetch_and_store_all: {e}'' ex_after_orderbook)
        (cache_path ex_self ''technical'') = None"
    by (simp add: log_def ex_paths ex_after_orderbook_store)
  show "files (snd (Technical_fetch_and_store ex_binance ex_self (ohlcv_frame [candle (hours 12)])
                 ex_after_orderbook)) (cache_path ex_self ''technical'') \<noteq> None"
    by (rule ex_technical_writes)
qed

section \<open>The merge\<close>

lemma files_log [simp]: "files (log lv msg w) = files w"
  by (simp add: log_def)

lemma readonly_log [simp]: "readonly (log lv msg w) = readonly w"
  by (simp add: log_def)

lemma cached_series_log [simp]:
  "cached_series self (log lv msg w) dts = cached_series self w dts"
  by (simp add: cached_series_def)

lemma cached_series_Cons:
  "cached_series self w (dt # dts) =
     (case files w (cache_path self dt) of None \<Rightarrow> [] | Some f \<Rightarrow> [(dt, f)])
     @ cached_series self w dts"
  by (simp add: cached_series_def)

lemma merge_step_spec:
  "merge_step c dt f =
     (case read_csv f of
        Inl e \<Rightarrow> Inl e
      | Inr df0 \<Rightarrow>
          (case parse_dates df0 (key_of dt) of
             Inl e \<Rightarrow> Inl e
           | Inr df \<Rightarrow> join_onto c dt df))"
  by (simp add: merge_step_def join_onto_def Let_def split: sum.splits option.splits)

lemma merge_loop_spec:
  "fst (merge_loop self dts c w) = join_series c (cached_series self w dts)"
proof (induction dts arbitrary: c w)
  case Nil
  then show ?case by (simp add: cached_series_def)
next
  case (Cons dt dts)
  show ?case
  proof (cases "files w (cache_path self dt)")
    case None
    then show ?thesis using Cons.IH by (simp add: cached_series_Cons)
  next
    case (Some f)
    then show ?thesis using Cons.IH
      by (simp add: cached_series_Cons merge_step_spec split: sum.splits)
  qed
qed

lemma merge_loop_frame:
  "files (snd (merge_loop self dts c w)) = files w
   \<and> readonly (snd (merge_loop self dts c w)) = readonly w"
proof (induction dts arbitrary: c w)
  case Nil
  then show ?case by simp
next
  case (Cons dt dts)
  show ?case
  proof (cases "files w (cache_path self dt)")
    case None
    then show ?thesis using Cons.IH[of c "log WARNING ''No {data_type} data found at {file_path}'' w"]
      by simp
  next
    case (Some f)
    then show ?thesis using Cons.IH by (simp split: sum.splits)
  qed
qed

lemma merge_loop_warnings:
  "fst (merge_loop self dts c w) = Inr c' \<Longrightarrow>
     logged (snd (merge_loop self dts c w)) =
       logged w @ replicate (length (filter (\<lambda>dt. files w (cache_path self dt) = None) dts))
                    (WARNING, ''No {data_type} data found at {file_path}'')"
proof (induction dts arbitrary: c w)
  case Nil
  then show ?case by simp
next
  case (Cons dt dts)
  show ?case
  proof (cases "files w (cache_path self dt)")
    case None
    then show ?thesis
      using Cons.IH[of c "log WARNING ''No {data_type} data found at {file_path}'' w"] Cons.prems
      by (simp add: replicate_app_Cons_same)
  next
    case (Some f)
    show ?thesis
    proof (cases "merge_step c dt f")
      case (Inl e)
      then show ?thesis using Some Cons.prems by simp
    next
      case (Inr x)
      then show ?thesis using Some Cons.prems Cons.IH[of "Some x" w] by simp
    qed
  qed
qed

lemma merge_refines_spec:
  "fst (merge_data_for_training self w) = Inr (merge_spec merge_data_types self w)"
proof -
  obtain r w1 where l: "merge_loop self merge_data_types None w = (r, w1)"
    by (cases "merge_loop self merge_data_types None w") auto
  have r: "r = join_series None (cached_series self w merge_data_types)"
    using merge_loop_spec[of self merge_data_types None w] l by simp
  have ro: "readonly w1 = readonly w"
    using merge_loop_frame[of self merge_data_types None w] l by simp
  show ?thesis
  proof (cases r)
    case (Inl e)
    then show ?thesis using l r
      by (simp add: merge_data_for_training_def merge_body_def merge_spec_def)
  next
    case (Inr c)
    then show ?thesis using l r ro
      by (cases c)
         (auto simp: merge_data_for_training_def merge_body_def merge_spec_def to_csv_def
            split: sum.splits)
  qed
qed

text \<open>
  C7, as the code has it. The merge returns what the specification describes when the
  data types are the six of the code's list: ohlcv, orderbook, technical, sentiment,
  fear_greed, fundamentals (macro and onchain are not among them). The series whose file is
  missing are skipped, the first series present becomes the running table with its key
  named \<^verbatim>\<open>open_time\<close> (the OHLCV series when its file exists), and each later series is
  nearest-joined onto the running table on \<^verbatim>\<open>open_time\<close> with a tolerance of four hours.
  When no step raises, the loop logs one warning for each missing file and nothing else.
\<close>

theorem merge_joins_six_series:
  "fst (merge_data_for_training self w)
     = Inr (merge_spec [''ohlcv'', ''orderbook'', ''technical'', ''sentiment'', ''fear_greed'',
                        ''fundamentals''] self w)
   \<and> (\<forall>c. fst (merge_loop self merge_data_types None w) = Inr c \<longrightarrow>
        logged (snd (merge_loop self merge_data_types None w)) =
          logged w @ replicate
            (length (filter (\<lambda>dt. files w (cache_path self dt) = None) merge_data_types))
            (WARNING, ''No {data_type} data found at {file_path}''))"
  using merge_refines_spec[of self w] merge_loop_warnings[of self merge_data_types None w]
  by (simp add: merge_data_types_def)


lemma ex_merge_spec:
  "merge_spec [''ohlcv'', ''orderbook'', ''technical'', ''sentiment'', ''fear_greed'',
               ''fundamentals''] ex_self ex_merge_world
     = \<lparr>columns = [''open_time'', ''close'', ''social_sentiment''],
        rows = [[Stamp 0, Val ''100.0'', Val ''0.1''], [Stamp (hours 4), Val ''102.0'', Val ''0.1'']]\<rparr>"
  by code_simp

lemma ex_merge_loop:
  "fst (merge_loop ex_self merge_data_types None ex_merge_world)
     = Inr (Some \<lparr>columns = [''open_time'', ''close'', ''social_sentiment''],
        rows = [[Stamp 0, Val ''100.0'', Val ''0.1''], [Stamp (hours 4), Val ''102.0'', Val ''0.1'']]\<rparr>)"
  by code_simp

lemma ex_merge_missing:
  "length (filter (\<lambda>dt. files ex_merge_world (cache_path ex_self dt) = None) merge_data_types) = 4"
  by code_simp

theorem merge_joins_six_series_witness:
  "fst (merge_data_for_training ex_self ex_merge_world)
     = Inr \<lparr>columns = [''open_time'', ''close'', ''social_sentiment''],
            rows = [[Stamp 0, Val ''100.0'', Val ''0.1''],
                    [Stamp (hours 4), Val ''102.0'', Val ''0.1'']]\<rparr>
   \<and> logged (snd (merge_loop ex_self merge_data_types None ex_merge_world))
       = replicate 4 (WARNING, ''No {data_type} data found at {file_path}'')"
proof -
  note t = merge_joins_six_series[of ex_self ex_merge_world]
  have a: "fst (merge_data_for_training ex_self ex_merge_world)
     = Inr \<lparr>columns = [''open_time'', ''close'', ''social_sentiment''],
            rows = [[Stamp 0, Val ''100.0'', Val ''0.1''],
                    [Stamp (hours 4), Val ''102.0'', Val ''0.1'']]\<rparr>"
    using t ex_merge_spec by simp
  have "logged (snd (merge_loop ex_self merge_data_types None ex_merge_world)) =
          logged ex_merge_world @ replicate
            (length (filter (\<lambda>dt. files ex_merge_world (cache_path ex_self dt) = None)
                       merge_data_types))
            (WARNING, ''No {data_type} data found at {file_path}'')"
    using t ex_merge_loop by blast
  then have b: "logged (snd (merge_loop ex_self merge_data_types None ex_merge_world))
       = replicate 4 (WARNING, ''No {data_type} data found at {file_path}'')"
    by (simp only: ex_merge_missing) (simp add: ex_merge_world_def)
  show ?thesis using a b by blast
qed

text \<open>
  With the eight data types of the specification the merge of a cache that holds a macro
  series only would be that series; the code does not read it and returns the empty table.
\<close>

theorem merge_skips_macro_counterexample:
  "files ex_macro_world (cache_path ex_self ''macro'') = Some (Csv ex_macro)
   \<and> merge_spec spec_data_types ex_self ex_macro_world
       = \<lparr>columns = [''open_time'', ''sp500_returns''], rows = [[Stamp 0, Val ''0.01'']]\<rparr>
   \<and> fst (merge_data_for_training ex_self ex_macro_world) = Inr empty_df"
  by code_simp

section \<open>The merge raises nothing\<close>

text \<open>
  C10. \<^verbatim>\<open>merge_data_for_training\<close> always returns a table to its caller: whenever the body of
  its \<^verbatim>\<open>try\<close> raises, while reading, joining or writing, the handler logs the exception
  and the empty table is returned.
\<close>

theorem merge_never_raises:
  "(\<exists>df. fst (merge_data_for_training self w) = Inr df)
   \<and> (\<forall>e. fst (merge_body self w) = Inl e \<longrightarrow>
        fst (merge_data_for_training self w) = Inr empty_df
        \<and> last (logged (snd (merge_data_for_training self w)))
            = (EXCEPTION, ''Error merging data: {e}''))"
  by (cases "merge_body self w"; cases "fst (merge_body self w)")
     (auto simp: merge_data_for_training_def)

lemma ex_merge_raises:
  "fst (merge_body ex_self ex_corrupt_world) = Inl ParserError"
  "fst (merge_body ex_self ex_bad_join_world) = Inl ValueError"
  "fst (merge_body ex_self ex_readonly_world) = Inl OSError"
  by code_simp+

theorem merge_never_raises_witness:
  "fst (merge_body ex_self ex_corrupt_world) = Inl ParserError
   \<and> fst (merge_data_for_training ex_self ex_corrupt_world) = Inr empty_df
   \<and> fst (merge_body ex_self ex_bad_join_world) = Inl ValueError
   \<and> fst (merge_data_for_training ex_self ex_bad_join_world) = Inr empty_df
   \<and> fst (merge_body ex_self ex_readonly_world) = Inl OSError
   \<and> fst (merge_data_for_training ex_self ex_readonly_world) = Inr empty_df"
  using merge_never_raises[of ex_self ex_corrupt_world]
    merge_never_raises[of ex_self ex_bad_join_world]
    merge_never_raises[of ex_self ex_readonly_world] ex_merge_raises
  by blast


section \<open>The tolerance of the nearest join\<close>

lemma asof_backward_Some:
  "asof_backward tol key rs t = Some r \<Longrightarrow> r \<in> set rs \<and> key r \<le> t \<and> t - key r \<le> tol"
proof -
  assume a: "asof_backward tol key rs t = Some r"
  then obtain x xs where f: "filter (\<lambda>r. key r \<le> t) rs = x # xs"
    by (cases "filter (\<lambda>r. key r \<le> t) rs") (auto simp: asof_backward_def)
  then have r: "r = last (x # xs)" and tol: "\<not> t - key r > tol"
    using a by (auto simp: asof_backward_def Let_def split: if_splits)
  have "last (x # xs) \<in> set (filter (\<lambda>r. key r \<le> t) rs)"
    using f by (metis last_in_set list.distinct(1))
  then show ?thesis using r tol by auto
qed

lemma asof_forward_Some:
  "asof_forward tol key rs t = Some r \<Longrightarrow> r \<in> set rs \<and> t \<le> key r \<and> key r - t \<le> tol"
proof -
  assume a: "asof_forward tol key rs t = Some r"
  then obtain x xs where f: "filter (\<lambda>r. t \<le> key r) rs = x # xs"
    by (cases "filter (\<lambda>r. t \<le> key r) rs") (auto simp: asof_forward_def)
  then have r: "r = x" and tol: "\<not> key r - t > tol"
    using a by (auto simp: asof_forward_def split: if_splits)
  have "x \<in> set (filter (\<lambda>r. t \<le> key r) rs)" using f by simp
  then show ?thesis using r tol by auto
qed

lemma asof_nearest_Some:
  assumes "asof_nearest tol key rs t = Some r"
  shows "r \<in> set rs \<and> \<bar>key r - t\<bar> \<le> tol"
proof -
  have "asof_backward tol key rs t = Some r \<or> asof_forward tol key rs t = Some r"
    using assms
    by (auto simp: asof_nearest_def split: option.splits if_splits)
  then show ?thesis using asof_backward_Some[of tol key rs t r] asof_forward_Some[of tol key rs t r]
    by auto
qed

lemma index_of_less: "index_of cols k = Some i \<Longrightarrow> i < length cols"
  by (induction cols arbitrary: i) (auto split: if_splits)

lemma label_index_less: "label_index cols k = Inr i \<Longrightarrow> i < length cols"
  by (auto simp: label_index_def index_of_less split: option.splits if_splits)

lemma length_pad [simp]: "length (pad n r) = n"
  by (simp add: pad_def)

lemma cell_at_pad: "i < n \<Longrightarrow> cell_at (pad n r) i = cell_at r i"
  by (auto simp: cell_at_def pad_def nth_append)

lemma merge_asof_far:
  assumes "merge_asof left right ''open_time'' key (hours 4) = Inr merged"
    and "label_index (columns left) ''open_time'' = Inr li"
    and "label_index (columns right) key = Inr ri"
    and "r \<in> set (rows right)"
    and "\<forall>l\<in>set (rows left). hours 4 < \<bar>time_of (cell_at r ri) - time_of (cell_at l li)\<bar>"
  shows "(\<forall>l\<in>set (rows left).
            asof_nearest (hours 4) (\<lambda>x. time_of (cell_at x ri)) (rows right)
              (time_of (cell_at l li)) \<noteq> Some r)
     \<and> (\<forall>row\<in>set (rows merged).
            drop (length (columns left)) row \<noteq> pad (length (columns right)) r)"
proof (intro conjI ballI)
  fix l assume l: "l \<in> set (rows left)"
  show "asof_nearest (hours 4) (\<lambda>x. time_of (cell_at x ri)) (rows right)
          (time_of (cell_at l li)) \<noteq> Some r"
  proof
    assume "asof_nearest (hours 4) (\<lambda>x. time_of (cell_at x ri)) (rows right)
          (time_of (cell_at l li)) = Some r"
    then have "\<bar>time_of (cell_at r ri) - time_of (cell_at l li)\<bar> \<le> hours 4"
      using asof_nearest_Some by fast
    then show False using assms(5) l by fastforce
  qed
next
  fix row assume row: "row \<in> set (rows merged)"
  have times: "\<forall>x\<in>set (rows right). is_time (cell_at x ri)"
    using assms(1,2,3) by (auto simp: merge_asof_def split: if_splits)
  have rows: "rows merged =
      map (\<lambda>l. pad (length (columns left)) l
                @ (case asof_nearest (hours 4) (\<lambda>r. time_of (cell_at r ri)) (rows right)
                         (time_of (cell_at l li)) of
                     None \<Rightarrow> replicate (length (columns right)) NaN
                   | Some r \<Rightarrow> pad (length (columns right)) r))
          (rows left)"
    using assms(1,2,3) by (auto simp: merge_asof_def split: if_splits)
  have ri: "ri < length (columns right)" using assms(3) by (rule label_index_less)
  from row rows obtain l where l: "l \<in> set (rows left)"
    and eq: "row = pad (length (columns left)) l
                @ (case asof_nearest (hours 4) (\<lambda>r. time_of (cell_at r ri)) (rows right)
                         (time_of (cell_at l li)) of
                     None \<Rightarrow> replicate (length (columns right)) NaN
                   | Some r \<Rightarrow> pad (length (columns right)) r)"
    by auto
  show "drop (length (columns left)) row \<noteq> pad (length (columns right)) r"
  proof
    assume d: "drop (length (columns left)) row = pad (length (columns right)) r"
    show False
    proof (cases "asof_nearest (hours 4) (\<lambda>r. time_of (cell_at r ri)) (rows right)
                         (time_of (cell_at l li))")
      case None
      then have "pad (length (columns right)) r = replicate (length (columns right)) NaN"
        using d eq by simp
      then have "cell_at (pad (length (columns right)) r) ri = NaN"
        using ri by (simp add: cell_at_def)
      then have "cell_at r ri = NaN" using ri by (simp add: cell_at_pad)
      then show False using times assms(4) by fastforce
    next
      case (Some r')
      then have "pad (length (columns right)) r = pad (length (columns right)) r'"
        using d eq by simp
      then have "cell_at r ri = cell_at r' ri" using ri by (metis cell_at_pad)
      moreover have "\<bar>time_of (cell_at r' ri) - time_of (cell_at l li)\<bar> \<le> hours 4"
        using asof_nearest_Some[OF Some] by simp
      ultimately show False using assms(5) l by fastforce
    qed
  qed
qed

lemma sort_values_keeps:
  assumes "sort_values df col = Inr srt"
  shows "columns srt = columns df \<and> set (rows srt) = set (rows df)"
proof -
  obtain i where i: "label_index (columns df) col = Inr i"
    using assms by (cases "label_index (columns df) col") (auto simp: sort_values_def)
  have "srt = df\<lparr>rows := sort_key (\<lambda>r. time_of (cell_at r i))
                              (filter (\<lambda>r. is_time (cell_at r i)) (rows df))
                            @ filter (\<lambda>r. \<not> is_time (cell_at r i)) (rows df)\<rparr>"
    using assms i by (simp add: sort_values_def)
  then show ?thesis by auto
qed

text \<open>
  C8. A merge step that joins a cached series, parsed to \<open>df\<close>, onto the running table
  sorts both, joins them with \<^verbatim>\<open>merge_asof\<close> under a tolerance of four hours and drops the
  key of \<open>df\<close>. A row of \<open>df\<close> whose timestamp is more than four hours away from the
  \<^verbatim>\<open>open_time\<close> of every row of the running table is matched to no row of it, and no row
  of the joined table carries its cells.
\<close>

theorem far_rows_left_unmatched:
  assumes "merge_step (Some combined) data_type (Csv df0) = Inr out"
    and "parse_dates df0 (key_of data_type) = Inr df"
    and "label_index (columns combined) ''open_time'' = Inr li"
    and "label_index (columns df) (key_of data_type) = Inr ri"
    and "r \<in> set (rows df)"
    and "\<forall>l\<in>set (rows combined).
           hours 4 < \<bar>time_of (cell_at r ri) - time_of (cell_at l li)\<bar>"
  shows "\<exists>left right merged.
           sort_values combined ''open_time'' = Inr left
         \<and> sort_values df (key_of data_type) = Inr right
         \<and> merge_asof left right ''open_time'' (key_of data_type) (hours 4) = Inr merged
         \<and> drop_column merged (key_of data_type) = Inr out
         \<and> (\<forall>l\<in>set (rows left).
              asof_nearest (hours 4) (\<lambda>x. time_of (cell_at x ri)) (rows right)
                (time_of (cell_at l li)) \<noteq> Some r)
         \<and> (\<forall>row\<in>set (rows merged).
              drop (length (columns combined)) row \<noteq> pad (length (columns df)) r)"
proof -
  have j: "join_onto (Some combined) data_type df = Inr out"
    using assms(1,2) by (simp add: merge_step_spec)
  from j obtain left where l: "sort_values combined ''open_time'' = Inr left"
    by (cases "sort_values combined ''open_time''") (auto simp: join_onto_def)
  from j l obtain right where r: "sort_values df (key_of data_type) = Inr right"
    by (cases "sort_values df (key_of data_type)") (auto simp: join_onto_def)
  from j l r obtain merged where
    m: "merge_asof left right ''open_time'' (key_of data_type) (hours 4) = Inr merged"
    by (cases "merge_asof left right ''open_time'' (key_of data_type) (hours 4)")
       (auto simp: join_onto_def)
  have d: "drop_column merged (key_of data_type) = Inr out"
    using j l r m by (simp add: join_onto_def)
  note kl = sort_values_keeps[OF l] and kr = sort_values_keeps[OF r]
  have "(\<forall>l\<in>set (rows left).
            asof_nearest (hours 4) (\<lambda>x. time_of (cell_at x ri)) (rows right)
              (time_of (cell_at l li)) \<noteq> Some r)
     \<and> (\<forall>row\<in>set (rows merged).
            drop (length (columns left)) row \<noteq> pad (length (columns right)) r)"
    using merge_asof_far[OF m, of li ri r] assms(3,4,5,6) kl kr by simp
  then show ?thesis using l r m d kl kr by auto
qed

lemma ex_join:
  "merge_step (Some ex_candles) ''sentiment'' (Csv ex_scores)
     = Inr \<lparr>columns = [''open_time'', ''close'', ''social_sentiment''],
            rows = [[Stamp 0, Val ''100.0'', Val ''0.1''],
                    [Stamp (hours 4), Val ''102.0'', Val ''0.1'']]\<rparr>"
  "parse_dates ex_scores (key_of ''sentiment'') = Inr ex_scores"
  "label_index (columns ex_candles) ''open_time'' = Inr 0"
  "label_index (columns ex_scores) (key_of ''sentiment'') = Inr 0"
  "sort_values ex_candles ''open_time'' = Inr ex_candles"
  "sort_values ex_scores (key_of ''sentiment'') = Inr ex_scores"
  "merge_asof ex_candles ex_scores ''open_time'' (key_of ''sentiment'') (hours 4) = Inr ex_joined"
  by code_simp+

theorem far_rows_left_unmatched_witness:
  "merge_step (Some ex_candles) ''sentiment'' (Csv ex_scores)
     = Inr \<lparr>columns = [''open_time'', ''close'', ''social_sentiment''],
            rows = [[Stamp 0, Val ''100.0'', Val ''0.1''],
                    [Stamp (hours 4), Val ''102.0'', Val ''0.1'']]\<rparr>
   \<and> asof_nearest (hours 4) (\<lambda>x. time_of (cell_at x 0)) (rows ex_scores) (hours 4)
       \<noteq> Some [Stamp (hours 20), Val ''0.9'']
   \<and> drop 2 (rows ex_joined ! 0) \<noteq> [Stamp (hours 20), Val ''0.9'']
   \<and> drop 2 (rows ex_joined ! 1) \<noteq> [Stamp (hours 20), Val ''0.9'']"
proof -
  have r: "[Stamp (hours 20), Val ''0.9''] \<in> set (rows ex_scores)"
    by (simp add: ex_scores_def)
  have far: "\<forall>l\<in>set (rows ex_candles).
      hours 4 < \<bar>time_of (cell_at [Stamp (hours 20), Val ''0.9''] 0) - time_of (cell_at l 0)\<bar>"
    by (simp add: ex_candles_def cell_at_def hours_def)
  from far_rows_left_unmatched[OF ex_join(1,2,3,4) r far]
  obtain left right merged where
    s: "sort_values ex_candles ''open_time'' = Inr left"
       "sort_values ex_scores (key_of ''sentiment'') = Inr right"
       "merge_asof left right ''open_time'' (key_of ''sentiment'') (hours 4) = Inr merged"
    and n: "\<forall>l\<in>set (rows left).
              asof_nearest (hours 4) (\<lambda>x. time_of (cell_at x 0)) (rows right)
                (time_of (cell_at l 0)) \<noteq> Some [Stamp (hours 20), Val ''0.9'']"
    and all: "\<forall>row\<in>set (rows merged).
              drop (length (columns ex_candles)) row
                \<noteq> pad (length (columns ex_scores)) [Stamp (hours 20), Val ''0.9'']"
    by blast
  have left: "left = ex_candles" and right: "right = ex_scores"
    using s(1,2) ex_join(5,6) by simp_all
  have merged: "merged = ex_joined" using s(3) ex_join(7) left right by simp
  have l: "[Stamp (hours 4), Val ''102.0''] \<in> set (rows ex_candles)"
    by (simp add: ex_candles_def)
  have "asof_nearest (hours 4) (\<lambda>x. time_of (cell_at x 0)) (rows ex_scores)
          (time_of (cell_at [Stamp (hours 4), Val ''102.0''] 0))
        \<noteq> Some [Stamp (hours 20), Val ''0.9'']"
    using n l left right by blast
  then have a: "asof_nearest (hours 4) (\<lambda>x. time_of (cell_at x 0)) (rows ex_scores) (hours 4)
       \<noteq> Some [Stamp (hours 20), Val ''0.9'']"
    by (simp add: cell_at_def)
  have c2: "length (columns ex_candles) = 2" by (simp add: ex_candles_def)
  have p: "pad (length (columns ex_scores)) [Stamp (hours 20), Val ''0.9'']
      = [Stamp (hours 20), Val ''0.9'']"
    by (simp add: ex_scores_def pad_def)
  have "rows ex_joined ! 0 \<in> set (rows ex_joined)" "rows ex_joined ! 1 \<in> set (rows ex_joined)"
    by (simp_all add: ex_joined_def)
  then have b: "drop 2 (rows ex_joined ! 0) \<noteq> [Stamp (hours 20), Val ''0.9'']"
    and c: "drop 2 (rows ex_joined ! 1) \<noteq> [Stamp (hours 20), Val ''0.9'']"
    using all merged c2 p by metis+
  show ?thesis using ex_join(1) a b c by blast
qed

end
